theory Spec2Isabelle
  imports Main "HOL-Library.Word" "HOL-Library.Sublist"
begin

unbundle bit_operations_syntax

section \<open>The dlopen module: a shallow embedding of src/dlopen.c\<close>

text \<open>
  The module loads a shared library, declares symbols with a signature of type tags
  (\<open>dlsym_lua\<close>), looks them up by name (\<open>index_lua\<close>), calls them through libffi
  (\<open>symcall_lua\<close>) and closes the library (\<open>dso_close\<close>, \<open>dlclose_lua\<close>, \<open>gc_lua\<close>).

  Platform and runtime the model fixes: an LP64 little-endian platform (char 8 bits and
  signed, short 16, int 32, long, long long, size_t, ssize_t and pointers 64), IEEE-754
  binary32 and binary64 with round-to-nearest-even, and a Lua with an integer subtype
  (\<open>lua_Integer\<close> 64 bits, \<open>lua_Number\<close> a double).

  What the C code calls but does not define (the dynamic loader, libffi, the allocator,
  the text conversions of the Lua runtime) is a parameter of the model, the record \<open>env\<close>.
  Struct fields carry the prefix of their struct (\<open>sym_\<close>, \<open>dso_\<close>), since a bare
  \<open>name\<close> or \<open>len\<close> would capture the variables of every later statement.
\<close>

subsection \<open>Type tags\<close>

text \<open>The enum \<open>datatype_t\<close>, in declaration order, with its sentinel \<open>T_LAST\<close>.\<close>

datatype datatype_t =
    T_VOID | T_VOID_PTR | T_CHAR_PTR | T_CHAR | T_SCHAR | T_UCHAR | T_SHORT | T_USHORT
  | T_INT8 | T_UINT8 | T_INT16 | T_UINT16 | T_INT | T_UINT | T_INT32 | T_UINT32
  | T_INT64 | T_UINT64 | T_LONG | T_ULONG | T_LONG_LONG | T_ULONG_LONG
  | T_FLOAT | T_DOUBLE | T_SIZE_T | T_SSIZE_T
  | T_LAST

definition FFI_MAX_ARGS :: nat where
  "FFI_MAX_ARGS = 32"

text \<open>The libffi type descriptors that \<open>check_ffitype\<close> hands out.\<close>

datatype ffi_type =
    ffi_type_void | ffi_type_pointer | ffi_type_schar | ffi_type_uchar
  | ffi_type_sshort | ffi_type_ushort | ffi_type_sint8 | ffi_type_uint8
  | ffi_type_sint16 | ffi_type_uint16 | ffi_type_sint | ffi_type_uint
  | ffi_type_sint32 | ffi_type_uint32 | ffi_type_sint64 | ffi_type_uint64
  | ffi_type_slong | ffi_type_ulong | ffi_type_float | ffi_type_double

text \<open>The status codes of libffi, \<open>FFI_BAD_ARGTYPE\<close> among them (\<open>HAS_FFI_BAD_ARGTYPE\<close>).\<close>

datatype ffi_status = FFI_OK | FFI_BAD_TYPEDEF | FFI_BAD_ABI | FFI_BAD_ARGTYPE

fun ffi_status_message :: "ffi_status \<Rightarrow> string" where
  "ffi_status_message FFI_OK = ''FFI_OK''"
| "ffi_status_message FFI_BAD_TYPEDEF = ''FFI_BAD_TYPEDEF (invalid ffi_type definition)''"
| "ffi_status_message FFI_BAD_ABI = ''FFI_BAD_ABI (unsupported ABI)''"
| "ffi_status_message FFI_BAD_ARGTYPE = ''FFI_BAD_ARGTYPE (invalid argument type)''"

text \<open>The table \<open>type_names\<close> of \<open>check_ffitype\<close>; position \<open>i\<close> names the tag of value \<open>i\<close>.\<close>

definition type_names :: "string list" where
  "type_names =
    [''void'', ''void*'', ''char*'', ''char'', ''signed char'', ''unsigned char'',
     ''short'', ''unsigned short'', ''int8'', ''uint8'', ''int16'', ''uint16'',
     ''int'', ''unsigned int'', ''int32'', ''uint32'', ''int64'', ''uint64'',
     ''long'', ''unsigned long'', ''long long'', ''unsigned long long'',
     ''float'', ''double'', ''size_t'', ''ssize_t'']"

text \<open>The tags in the order of the enum, \<open>T_LAST\<close> left out: tag \<open>i\<close> has the value \<open>i\<close>.\<close>

definition datatype_list :: "datatype_t list" where
  "datatype_list =
    [T_VOID, T_VOID_PTR, T_CHAR_PTR, T_CHAR, T_SCHAR, T_UCHAR, T_SHORT, T_USHORT,
     T_INT8, T_UINT8, T_INT16, T_UINT16, T_INT, T_UINT, T_INT32, T_UINT32,
     T_INT64, T_UINT64, T_LONG, T_ULONG, T_LONG_LONG, T_ULONG_LONG,
     T_FLOAT, T_DOUBLE, T_SIZE_T, T_SSIZE_T]"

text \<open>The cast \<open>(datatype_t)n\<close> of an option index.\<close>

definition datatype_of_nat :: "nat \<Rightarrow> datatype_t" where
  "datatype_of_nat n = (if n < 26 then datatype_list ! n else T_LAST)"

subsection \<open>C strings\<close>

text \<open>
  A Lua string is a byte sequence with an explicit length and may hold zero bytes; the C
  string functions stop at the first zero byte. A \<open>string\<close> below is the byte sequence;
  the terminator that follows it in memory is implicit.
\<close>

definition NUL :: char where
  "NUL = CHR 0x00"

text \<open>What \<open>strdup\<close>, \<open>strcmp\<close>, \<open>dlsym\<close> and \<open>lua_pushstring\<close> see of a buffer.\<close>

definition cstr :: "string \<Rightarrow> string" where
  "cstr s = takeWhile (\<lambda>c. c \<noteq> NUL) s"

text \<open>\<open>strcmp(a, b) == 0\<close>.\<close>

definition strcmp_eq :: "string \<Rightarrow> string \<Rightarrow> bool" where
  "strcmp_eq a b \<longleftrightarrow> cstr a = cstr b"

text \<open>The byte that C reads at the front of a buffer: the terminator when it is used up.\<close>

fun front :: "string \<Rightarrow> char" where
  "front [] = NUL"
| "front (c # cs) = c"

text \<open>
  \<open>strncmp(a, b, n) == 0\<close>: at most \<open>n\<close> bytes are compared, and the comparison stops
  after a zero byte on which both agree.
\<close>

fun strncmp_eq :: "string \<Rightarrow> string \<Rightarrow> nat \<Rightarrow> bool" where
  "strncmp_eq a b 0 = True"
| "strncmp_eq a b (Suc n) =
     (if front a \<noteq> front b then False
      else if front a = NUL then True
      else strncmp_eq (tl a) (tl b) n)"

subsection \<open>IEEE-754 numbers\<close>

text \<open>
  A binary floating-point datum is its three fields: sign, biased exponent, fraction.
  \<open>eb\<close> and \<open>fb\<close> are the widths of the exponent and fraction fields: 8 and 23 for
  \<open>float\<close>, 11 and 52 for \<open>double\<close>. A finite datum denotes
  \<open>(-1)^s * fp_mant * 2^fp_expo\<close>.
\<close>

type_synonym fp = "bool \<times> nat \<times> nat"

definition fp_decode :: "nat \<Rightarrow> nat \<Rightarrow> nat \<Rightarrow> fp" where
  "fp_decode eb fb n = (n div 2 ^ (eb + fb) mod 2 = 1, n div 2 ^ fb mod 2 ^ eb, n mod 2 ^ fb)"

fun fp_encode :: "nat \<Rightarrow> nat \<Rightarrow> fp \<Rightarrow> nat" where
  "fp_encode eb fb (s, e, f) = (if s then 2 ^ (eb + fb) else 0) + e * 2 ^ fb + f"

definition fp_bias :: "nat \<Rightarrow> nat" where
  "fp_bias eb = 2 ^ (eb - 1) - 1"

definition fp_mant :: "nat \<Rightarrow> nat \<Rightarrow> nat \<Rightarrow> nat" where
  "fp_mant fb e f = (if e = 0 then f else 2 ^ fb + f)"

definition fp_expo :: "nat \<Rightarrow> nat \<Rightarrow> nat \<Rightarrow> int" where
  "fp_expo eb fb e = int (max e 1) - int (fp_bias eb) - int fb"

text \<open>The number of bits of \<open>n\<close>: 0 for 0, \<open>k + 1\<close> when \<open>2^k \<le> n < 2^(k+1)\<close>.\<close>

fun bit_length :: "nat \<Rightarrow> nat" where
  "bit_length n = (if n = 0 then 0 else Suc (bit_length (n div 2)))"

declare bit_length.simps [simp del]

text \<open>\<open>m * 2^k\<close> rounded to an integer, to nearest and ties to even.\<close>

definition scale_rne :: "nat \<Rightarrow> int \<Rightarrow> nat" where
  "scale_rne m k =
    (if 0 \<le> k then m * 2 ^ nat k
     else let d = 2 ^ nat (- k); q = m div d; r = m mod d
          in if 2 * r < d then q
             else if d < 2 * r then q + 1
             else if even q then q else q + 1)"

text \<open>
  \<open>m * 2^x\<close> with sign \<open>s\<close>, rounded into the format \<open>(eb, fb)\<close>. The exponent of the
  result is that of the leading bit of \<open>m\<close>, or the least normal exponent for a
  subnormal; the significand is rounded at this scale, and a carry out of it runs into
  the exponent field, up to infinity.
\<close>

definition fp_round :: "nat \<Rightarrow> nat \<Rightarrow> bool \<Rightarrow> nat \<Rightarrow> int \<Rightarrow> fp" where
  "fp_round eb fb s m x =
    (if m = 0 then (s, 0, 0)
     else let emin = 1 - int (fp_bias eb);
              ee = max (int (bit_length m) - 1 + x) emin;
              sig = scale_rne m (x - (ee - int fb));
              enc = nat (ee - emin) * 2 ^ fb + sig
          in if (2 ^ eb - 1) * 2 ^ fb \<le> enc then (s, 2 ^ eb - 1, 0)
             else (s, enc div 2 ^ fb, enc mod 2 ^ fb))"

text \<open>
  A conversion between the two formats. An infinity stays one; a NaN keeps the leading
  bits of its payload and comes out quiet.
\<close>

definition fp_convert :: "nat \<Rightarrow> nat \<Rightarrow> nat \<Rightarrow> nat \<Rightarrow> fp \<Rightarrow> fp" where
  "fp_convert eb fb eb' fb' v =
    (case v of (s, e, f) \<Rightarrow>
       if e = 2 ^ eb - 1 then
         (if f = 0 then (s, 2 ^ eb' - 1, 0)
          else let p = (if fb \<le> fb' then f * 2 ^ (fb' - fb) else f div 2 ^ (fb - fb'))
               in (s, 2 ^ eb' - 1, if p div 2 ^ (fb' - 1) mod 2 = 1 then p else p + 2 ^ (fb' - 1)))
       else fp_round eb' fb' s (fp_mant fb e f) (fp_expo eb fb e))"

text \<open>The cast \<open>(float)d\<close> of a double and the cast \<open>(double)f\<close> of a float, on the bits.\<close>

definition double_to_float :: "64 word \<Rightarrow> 32 word" where
  "double_to_float d = word_of_nat (fp_encode 8 23 (fp_convert 11 52 8 23 (fp_decode 11 52 (unat d))))"

definition float_to_double :: "32 word \<Rightarrow> 64 word" where
  "float_to_double f = word_of_nat (fp_encode 11 52 (fp_convert 8 23 11 52 (fp_decode 8 23 (unat f))))"

text \<open>The cast \<open>(lua_Number)i\<close> of a \<open>lua_Integer\<close>.\<close>

definition integer_to_double :: "64 word \<Rightarrow> 64 word" where
  "integer_to_double i =
    word_of_nat (fp_encode 11 52 (fp_round 11 52 (sint i < 0) (nat \<bar>sint i\<bar>) 0))"

text \<open>
  \<open>luaV_flttointns\<close> in its exact mode: the integer a float equals, when it is integral
  and \<open>-2^63 \<le> d < 2^63\<close>.
\<close>

definition double_to_integer :: "64 word \<Rightarrow> 64 word option" where
  "double_to_integer d =
    (case fp_decode 11 52 (unat d) of (s, e, f) \<Rightarrow>
       if e = 2047 then None
       else let m = fp_mant 52 e f; x = fp_expo 11 52 e
            in if x < 0 \<and> m mod 2 ^ nat (- x) \<noteq> 0 then None
               else let v = (if 0 \<le> x then int m * 2 ^ nat x else int (m div 2 ^ nat (- x)));
                        sv = (if s then - v else v)
                    in if - (2 ^ 63) \<le> sv \<and> sv < 2 ^ 63 then Some (word_of_int sv) else None)"

subsection \<open>Lua values and the argument checks of lauxlib\<close>

datatype lua_type =
    LUA_TNONE | LUA_TNIL | LUA_TBOOLEAN | LUA_TLIGHTUSERDATA | LUA_TNUMBER | LUA_TSTRING
  | LUA_TTABLE | LUA_TFUNCTION | LUA_TUSERDATA | LUA_TTHREAD

text \<open>
  A number is an integer (\<open>lua_Integer\<close>, 64 bits, read as two's complement) or a float
  (the bits of a double). A pointer is its address; a full userdata is the address of
  its block.
\<close>

datatype lua_value =
    LNil | LBoolean bool | LLightUserdata "64 word" | LInteger "64 word" | LFloat "64 word"
  | LString string | LTable nat | LFunction nat | LUserdata "64 word" | LThread nat

fun type_of_value :: "lua_value \<Rightarrow> lua_type" where
  "type_of_value LNil = LUA_TNIL"
| "type_of_value (LBoolean b) = LUA_TBOOLEAN"
| "type_of_value (LLightUserdata p) = LUA_TLIGHTUSERDATA"
| "type_of_value (LInteger i) = LUA_TNUMBER"
| "type_of_value (LFloat d) = LUA_TNUMBER"
| "type_of_value (LString s) = LUA_TSTRING"
| "type_of_value (LTable t) = LUA_TTABLE"
| "type_of_value (LFunction f) = LUA_TFUNCTION"
| "type_of_value (LUserdata p) = LUA_TUSERDATA"
| "type_of_value (LThread t) = LUA_TTHREAD"

text \<open>The stack of a C function: index 1 is the first argument, \<open>lua_gettop\<close> the length.\<close>

definition stack_value :: "lua_value list \<Rightarrow> nat \<Rightarrow> lua_value option" where
  "stack_value stack idx =
    (if 1 \<le> idx \<and> idx \<le> length stack then Some (stack ! (idx - 1)) else None)"

definition lua_type :: "lua_value list \<Rightarrow> nat \<Rightarrow> lua_type" where
  "lua_type stack idx = (case stack_value stack idx of None \<Rightarrow> LUA_TNONE | Some v \<Rightarrow> type_of_value v)"

text \<open>
  The errors that the module raises with \<open>luaL_error\<close>, and those that lauxlib raises
  for it with \<open>luaL_argerror\<close> (\<open>bad argument #n to 'f' (msg)\<close>). \<open>Undefined_behaviour\<close>
  is no message: it marks a run that leaves the arrays of the C code. \<open>Type_expected\<close>
  is \<open>%s expected, got %s\<close>; what was got is kept as the type of the value, where
  lauxlib prints the \<open>__name\<close> of a userdata's metatable when it has one.
\<close>

datatype arg_msg =
    Type_expected string lua_type
  | No_integer_representation
  | Invalid_option string

datatype lua_error =
    Bad_argument nat arg_msg
  | Bad_self arg_msg
  | Module_is_closed
  | Unknown_field string
  | Invalid_number_of_arguments string int int
  | Unsupported_return_type string
  | Unsupported_argument_type string
  | Void_as_argument nat
  | Void_ptr_requires nat lua_type
  | Char_ptr_requires nat lua_type
  | Missing_case_for_datatype
  | Undefined_behaviour

text \<open>
  \<open>luaL_argerror\<close>. When the debug information of the running call says that the
  function was called as a method (\<open>obj:f(...)\<close>), lauxlib does not count \<open>self\<close>:
  it reports \<open>arg - 1\<close>. The flag \<open>meth\<close> is that piece of the call frame.
\<close>

definition luaL_argerror :: "bool \<Rightarrow> nat \<Rightarrow> arg_msg \<Rightarrow> lua_error" where
  "luaL_argerror meth arg msg =
    (if meth then (if arg - 1 = 0 then Bad_self msg else Bad_argument (arg - 1) msg)
     else Bad_argument arg msg)"

definition luaL_typeerror :: "bool \<Rightarrow> lua_value list \<Rightarrow> nat \<Rightarrow> string \<Rightarrow> lua_error" where
  "luaL_typeerror meth stack arg tname = luaL_argerror meth arg (Type_expected tname (lua_type stack arg))"

text \<open>
  The surroundings of the module. \<open>l_strton\<close> and \<open>lua_numtostr\<close> are the conversions
  of the Lua runtime between numbers and their text; \<open>lua_string_ptr\<close> is the address
  of the runtime's copy of a string and \<open>mem_string\<close> the bytes that start at an address;
  the rest is the dynamic loader, the allocator and libffi. A null pointer is 0.
\<close>

record env =
  l_strton :: "string \<Rightarrow> lua_value option"
  lua_numtostr :: "lua_value \<Rightarrow> string"
  lua_string_ptr :: "string \<Rightarrow> 64 word"
  mem_string :: "64 word \<Rightarrow> string"
  lua_newuserdata :: "64 word"
  strdup_ok :: "string \<Rightarrow> bool"
  dlopen :: "string \<Rightarrow> 64 word"
  dlsym :: "64 word \<Rightarrow> string \<Rightarrow> 64 word"
  dlclose :: "64 word \<Rightarrow> int"
  dlerror :: "string"
  ffi_prep_cif :: "nat \<Rightarrow> ffi_type \<Rightarrow> ffi_type list \<Rightarrow> ffi_status"
  ffi_call :: "64 word \<Rightarrow> ffi_type \<Rightarrow> ffi_type list \<Rightarrow> 64 word list \<Rightarrow> 64 word"

text \<open>The number a value converts to: itself, or what a numeral string reads as.\<close>

definition tonumber :: "env \<Rightarrow> lua_value \<Rightarrow> lua_value option" where
  "tonumber E v =
    (case v of
       LInteger i \<Rightarrow> Some (LInteger i)
     | LFloat d \<Rightarrow> Some (LFloat d)
     | LString s \<Rightarrow>
         (case l_strton E s of
            Some (LInteger i) \<Rightarrow> Some (LInteger i)
          | Some (LFloat d) \<Rightarrow> Some (LFloat d)
          | _ \<Rightarrow> None)
     | _ \<Rightarrow> None)"

definition lua_isnumber :: "env \<Rightarrow> lua_value list \<Rightarrow> nat \<Rightarrow> bool" where
  "lua_isnumber E stack idx =
    (case stack_value stack idx of None \<Rightarrow> False | Some v \<Rightarrow> tonumber E v \<noteq> None)"

definition lua_tointegerx :: "env \<Rightarrow> lua_value list \<Rightarrow> nat \<Rightarrow> 64 word option" where
  "lua_tointegerx E stack idx =
    (case stack_value stack idx of
       None \<Rightarrow> None
     | Some v \<Rightarrow>
         (case tonumber E v of
            Some (LInteger i) \<Rightarrow> Some i
          | Some (LFloat d) \<Rightarrow> double_to_integer d
          | _ \<Rightarrow> None))"

definition lua_tonumberx :: "env \<Rightarrow> lua_value list \<Rightarrow> nat \<Rightarrow> 64 word option" where
  "lua_tonumberx E stack idx =
    (case stack_value stack idx of
       None \<Rightarrow> None
     | Some v \<Rightarrow>
         (case tonumber E v of
            Some (LInteger i) \<Rightarrow> Some (integer_to_double i)
          | Some (LFloat d) \<Rightarrow> Some d
          | _ \<Rightarrow> None))"

definition luaL_checkinteger :: "env \<Rightarrow> bool \<Rightarrow> lua_value list \<Rightarrow> nat \<Rightarrow> lua_error + 64 word" where
  "luaL_checkinteger E meth stack arg =
    (case lua_tointegerx E stack arg of
       Some i \<Rightarrow> Inr i
     | None \<Rightarrow>
         if lua_isnumber E stack arg then Inl (luaL_argerror meth arg No_integer_representation)
         else Inl (luaL_typeerror meth stack arg ''number''))"

definition luaL_checknumber :: "env \<Rightarrow> bool \<Rightarrow> lua_value list \<Rightarrow> nat \<Rightarrow> lua_error + 64 word" where
  "luaL_checknumber E meth stack arg =
    (case lua_tonumberx E stack arg of
       Some d \<Rightarrow> Inr d
     | None \<Rightarrow> Inl (luaL_typeerror meth stack arg ''number''))"

text \<open>\<open>luaL_checklstring\<close>: a string, or a number in its text form; the length comes with it.\<close>

definition luaL_checklstring :: "env \<Rightarrow> bool \<Rightarrow> lua_value list \<Rightarrow> nat \<Rightarrow> lua_error + string" where
  "luaL_checklstring E meth stack arg =
    (case stack_value stack arg of
       Some (LString s) \<Rightarrow> Inr s
     | Some (LInteger i) \<Rightarrow> Inr (lua_numtostr E (LInteger i))
     | Some (LFloat d) \<Rightarrow> Inr (lua_numtostr E (LFloat d))
     | _ \<Rightarrow> Inl (luaL_typeerror meth stack arg ''string''))"

text \<open>The loop of \<open>luaL_checkoption\<close>: the first \<open>i\<close> with \<open>strcmp(lst[i], name) == 0\<close>.\<close>

fun find_option :: "string \<Rightarrow> string list \<Rightarrow> nat \<Rightarrow> nat option" where
  "find_option nm [] i = None"
| "find_option nm (x # xs) i = (if strcmp_eq x nm then Some i else find_option nm xs (Suc i))"

definition luaL_checkoption ::
  "env \<Rightarrow> bool \<Rightarrow> lua_value list \<Rightarrow> nat \<Rightarrow> string list \<Rightarrow> lua_error + nat" where
  "luaL_checkoption E meth stack arg lst =
    (case luaL_checklstring E meth stack arg of
       Inl e \<Rightarrow> Inl e
     | Inr nm \<Rightarrow>
         (case find_option nm lst 0 of
            Some i \<Rightarrow> Inr i
          | None \<Rightarrow> Inl (luaL_argerror meth arg (Invalid_option (cstr nm)))))"

subsection \<open>check_ffitype\<close>

text \<open>The switch of \<open>check_ffitype\<close>; \<open>None\<close> is its \<open>default\<close> branch.\<close>

fun FFI_TYPE_CASE :: "datatype_t \<Rightarrow> ffi_type option" where
  "FFI_TYPE_CASE T_VOID = Some ffi_type_void"
| "FFI_TYPE_CASE T_VOID_PTR = Some ffi_type_pointer"
| "FFI_TYPE_CASE T_CHAR_PTR = Some ffi_type_pointer"
| "FFI_TYPE_CASE T_CHAR = Some ffi_type_schar"
| "FFI_TYPE_CASE T_SCHAR = Some ffi_type_schar"
| "FFI_TYPE_CASE T_UCHAR = Some ffi_type_uchar"
| "FFI_TYPE_CASE T_SHORT = Some ffi_type_sshort"
| "FFI_TYPE_CASE T_USHORT = Some ffi_type_ushort"
| "FFI_TYPE_CASE T_INT8 = Some ffi_type_sint8"
| "FFI_TYPE_CASE T_UINT8 = Some ffi_type_uint8"
| "FFI_TYPE_CASE T_INT16 = Some ffi_type_sint16"
| "FFI_TYPE_CASE T_UINT16 = Some ffi_type_uint16"
| "FFI_TYPE_CASE T_INT = Some ffi_type_sint"
| "FFI_TYPE_CASE T_UINT = Some ffi_type_uint"
| "FFI_TYPE_CASE T_INT32 = Some ffi_type_sint32"
| "FFI_TYPE_CASE T_UINT32 = Some ffi_type_uint32"
| "FFI_TYPE_CASE T_INT64 = Some ffi_type_sint64"
| "FFI_TYPE_CASE T_UINT64 = Some ffi_type_uint64"
| "FFI_TYPE_CASE T_LONG = Some ffi_type_slong"
| "FFI_TYPE_CASE T_ULONG = Some ffi_type_ulong"
| "FFI_TYPE_CASE T_LONG_LONG = Some ffi_type_sint64"
| "FFI_TYPE_CASE T_ULONG_LONG = Some ffi_type_uint64"
| "FFI_TYPE_CASE T_FLOAT = Some ffi_type_float"
| "FFI_TYPE_CASE T_DOUBLE = Some ffi_type_double"
| "FFI_TYPE_CASE T_SIZE_T = Some ffi_type_uint64"
| "FFI_TYPE_CASE T_SSIZE_T = Some ffi_type_sint64"
| "FFI_TYPE_CASE T_LAST = None"

definition check_ffitype ::
  "env \<Rightarrow> bool \<Rightarrow> lua_value list \<Rightarrow> nat \<Rightarrow> lua_error + datatype_t \<times> ffi_type" where
  "check_ffitype E meth stack idx =
    (case luaL_checkoption E meth stack idx type_names of
       Inl e \<Rightarrow> Inl e
     | Inr n \<Rightarrow>
         (case FFI_TYPE_CASE (datatype_of_nat n) of
            None \<Rightarrow> Inl Missing_case_for_datatype
          | Some ft \<Rightarrow> Inr (datatype_of_nat n, ft)))"

subsection \<open>The structs\<close>

text \<open>
  \<open>syminfo_t\<close>. \<open>sym_arg_types\<close> and \<open>sym_arg_ffi_types\<close> are the entries of the two
  32-slot arrays that have been written, from slot 0 on; the other slots of the C
  arrays hold what the allocator left there. The \<open>next\<close> pointer is the list structure
  of \<open>dso_symbols\<close>, and \<open>cif\<close> is determined by the fields that \<open>ffi_prep_cif\<close> was given.
\<close>

record syminfo_t =
  sym_ref :: int
  sym_addr :: "64 word"
  sym_len :: nat
  sym_name :: string
  sym_ret_type :: datatype_t
  sym_ret_ffi_type :: ffi_type
  sym_nargs :: nat
  sym_arg_types :: "datatype_t list"
  sym_arg_ffi_types :: "ffi_type list"

text \<open>
  \<open>dso_t\<close>. \<open>dso_symbols\<close> is the chain that starts at \<open>symbols_head\<close> and follows
  \<open>next\<close>. \<open>dso_tail_linked\<close> says that \<open>symbols_tail\<close> is the last record of this chain
  (or null with it); \<open>dso_close\<close> cuts the chain and can leave the tail pointer behind
  it. \<open>dso_self\<close> is the address of the userdata block that holds the struct: the Lua
  value of the handle is \<open>LUserdata (dso_self d)\<close>.
\<close>

record dso_t =
  dso_self :: "64 word"
  dso_handle :: "64 word"
  dso_path :: "string option"
  dso_symbols :: "syminfo_t list"
  dso_tail_linked :: bool

text \<open>What the module does to its surroundings, in the order it does it.\<close>

datatype event =
    Ev_dlopen string
  | Ev_dlsym "64 word" string
  | Ev_ffi_prep_cif nat ffi_type "ffi_type list"
  | Ev_ffi_call "64 word" "64 word list"
  | Ev_dlclose "64 word"
  | Ev_strdup string
  | Ev_free string
  | Ev_luaL_ref int
  | Ev_luaL_unref int

text \<open>
  The state that the functions of the module work on: one library, the next free
  reference of the registry, and the events so far.
\<close>

record world =
  w_dso :: dso_t
  w_ref :: int
  w_trace :: "event list"

definition emit :: "event list \<Rightarrow> world \<Rightarrow> world" where
  "emit evs w = w\<lparr>w_trace := w_trace w @ evs\<rparr>"

definition LUA_NOREF :: int where
  "LUA_NOREF = - 2"

text \<open>\<open>luaL_checkudata(L, 1, MODULE_MT)\<close>: argument 1 has to be the handle.\<close>

definition luaL_checkudata :: "bool \<Rightarrow> lua_value list \<Rightarrow> world \<Rightarrow> lua_error option" where
  "luaL_checkudata meth stack w =
    (if stack_value stack 1 = Some (LUserdata (dso_self (w_dso w))) then None
     else Some (luaL_typeerror meth stack 1 ''dlopen''))"

subsection \<open>The union callval_u\<close>

text \<open>
  The union is its 8 bytes, as a 64-bit word; a member is the low bits of its width.
  The call \<open>store_field fld x\<close> is the assignment \<open>u.fld = (typeof(u.fld))x\<close> to a zeroed
  union, and \<open>load_field fld u\<close> is the conversion \<open>(lua_Integer)u.fld\<close>.
\<close>

datatype field =
    F_p | F_i8 | F_u8 | F_i16 | F_u16 | F_i32 | F_u32 | F_i64 | F_u64
  | F_c | F_sc | F_uc | F_s | F_us | F_i | F_ui | F_l | F_ul | F_ll | F_ull
  | F_f | F_d | F_sz | F_ssz

fun field_bits :: "field \<Rightarrow> nat" where
  "field_bits F_p = 64"
| "field_bits F_i8 = 8"
| "field_bits F_u8 = 8"
| "field_bits F_i16 = 16"
| "field_bits F_u16 = 16"
| "field_bits F_i32 = 32"
| "field_bits F_u32 = 32"
| "field_bits F_i64 = 64"
| "field_bits F_u64 = 64"
| "field_bits F_c = 8"
| "field_bits F_sc = 8"
| "field_bits F_uc = 8"
| "field_bits F_s = 16"
| "field_bits F_us = 16"
| "field_bits F_i = 32"
| "field_bits F_ui = 32"
| "field_bits F_l = 64"
| "field_bits F_ul = 64"
| "field_bits F_ll = 64"
| "field_bits F_ull = 64"
| "field_bits F_f = 32"
| "field_bits F_d = 64"
| "field_bits F_sz = 64"
| "field_bits F_ssz = 64"

fun field_signed :: "field \<Rightarrow> bool" where
  "field_signed F_i8 = True"
| "field_signed F_i16 = True"
| "field_signed F_i32 = True"
| "field_signed F_i64 = True"
| "field_signed F_c = True"
| "field_signed F_sc = True"
| "field_signed F_s = True"
| "field_signed F_i = True"
| "field_signed F_l = True"
| "field_signed F_ll = True"
| "field_signed F_ssz = True"
| "field_signed fld = False"

definition store_field :: "field \<Rightarrow> 64 word \<Rightarrow> 64 word" where
  "store_field fld x = take_bit (field_bits fld) x"

definition load_field :: "field \<Rightarrow> 64 word \<Rightarrow> 64 word" where
  "load_field fld u =
    (if field_signed fld then signed_take_bit (field_bits fld - 1) u
     else take_bit (field_bits fld) u)"

text \<open>The members \<open>f\<close> and \<open>d\<close>: written from and read into a \<open>lua_Number\<close>.\<close>

definition store_f :: "64 word \<Rightarrow> 64 word" where
  "store_f d = ucast (double_to_float d)"

definition load_f :: "64 word \<Rightarrow> 64 word" where
  "load_f u = float_to_double (ucast u)"

subsection \<open>symcall_lua\<close>

text \<open>
  The table \<open>RETVAL\<close>: where the result of the call goes, by return tag; \<open>None\<close> is the
  null pointer. The table has \<open>T_LAST\<close> entries, so \<open>T_LAST\<close> itself has none:
  \<open>symcall_lua\<close> below treats reading it as leaving the array.
\<close>

fun RETVAL :: "datatype_t \<Rightarrow> field option" where
  "RETVAL T_VOID = None"
| "RETVAL T_VOID_PTR = Some F_p"
| "RETVAL T_CHAR_PTR = Some F_p"
| "RETVAL T_CHAR = Some F_c"
| "RETVAL T_SCHAR = Some F_sc"
| "RETVAL T_UCHAR = Some F_uc"
| "RETVAL T_SHORT = Some F_s"
| "RETVAL T_USHORT = Some F_us"
| "RETVAL T_INT8 = Some F_i8"
| "RETVAL T_UINT8 = Some F_u8"
| "RETVAL T_INT16 = Some F_i16"
| "RETVAL T_UINT16 = Some F_u16"
| "RETVAL T_INT = Some F_i"
| "RETVAL T_UINT = Some F_ui"
| "RETVAL T_INT32 = Some F_i32"
| "RETVAL T_UINT32 = Some F_u32"
| "RETVAL T_INT64 = Some F_i64"
| "RETVAL T_UINT64 = Some F_u64"
| "RETVAL T_LONG = Some F_l"
| "RETVAL T_ULONG = Some F_ul"
| "RETVAL T_LONG_LONG = Some F_ll"
| "RETVAL T_ULONG_LONG = Some F_ull"
| "RETVAL T_FLOAT = Some F_f"
| "RETVAL T_DOUBLE = Some F_d"
| "RETVAL T_SIZE_T = Some F_sz"
| "RETVAL T_SSIZE_T = Some F_ssz"
| "RETVAL T_LAST = None"

text \<open>The casts \<open>(size_t)nargs\<close> of an \<open>int\<close> and \<open>(int)sym->nargs\<close> of a \<open>size_t\<close>.\<close>

definition size_t_of_int :: "int \<Rightarrow> nat" where
  "size_t_of_int n = nat (n mod 2 ^ 64)"

definition int_of_size_t :: "nat \<Rightarrow> int" where
  "int_of_size_t n = sint (word_of_nat n :: 32 word)"

text \<open>
  The macro \<open>CHECK_CASE(tag, fld, luaL_checkinteger)\<close>: the argument slot holds the
  checked integer, cast to the member's type.
\<close>

definition CHECK_CASE :: "env \<Rightarrow> bool \<Rightarrow> lua_value list \<Rightarrow> nat \<Rightarrow> field \<Rightarrow> lua_error + 64 word" where
  "CHECK_CASE E meth stack index fld =
    (case luaL_checkinteger E meth stack index of
       Inl e \<Rightarrow> Inl e
     | Inr x \<Rightarrow> Inr (store_field fld x))"

text \<open>\<open>lua_topointer\<close> of a userdata and \<open>lua_tostring\<close> of a string, as addresses.\<close>

definition lua_topointer :: "lua_value list \<Rightarrow> nat \<Rightarrow> 64 word" where
  "lua_topointer stack idx =
    (case stack_value stack idx of
       Some (LLightUserdata p) \<Rightarrow> p
     | Some (LUserdata p) \<Rightarrow> p
     | _ \<Rightarrow> 0)"

definition lua_tostring :: "env \<Rightarrow> lua_value list \<Rightarrow> nat \<Rightarrow> 64 word" where
  "lua_tostring E stack idx =
    (case stack_value stack idx of
       Some (LString s) \<Rightarrow> lua_string_ptr E s
     | _ \<Rightarrow> 0)"

text \<open>
  The switch of the loop \<open>check arguments\<close> for a tag \<open>tag\<close> at the 0-based position
  \<open>i\<close>; \<open>nm\<close> is \<open>sym->name\<close>. It yields the slot \<open>args[i]\<close> or the error raised.
\<close>

definition check_arg_type ::
  "env \<Rightarrow> bool \<Rightarrow> string \<Rightarrow> datatype_t \<Rightarrow> lua_value list \<Rightarrow> nat \<Rightarrow> lua_error + 64 word" where
  "check_arg_type E meth nm tag stack i =
    (let index = 2 + i in
     case tag of
       T_VOID \<Rightarrow> Inl (Void_as_argument (i + 1))
     | T_VOID_PTR \<Rightarrow>
         (case lua_type stack index of
            LUA_TNIL \<Rightarrow> Inr 0
          | LUA_TNONE \<Rightarrow> Inr 0
          | LUA_TLIGHTUSERDATA \<Rightarrow> Inr (store_field F_p (lua_topointer stack index))
          | LUA_TUSERDATA \<Rightarrow> Inr (store_field F_p (lua_topointer stack index))
          | t \<Rightarrow> Inl (Void_ptr_requires (i + 1) t))
     | T_CHAR_PTR \<Rightarrow>
         (case lua_type stack index of
            LUA_TNIL \<Rightarrow> Inr 0
          | LUA_TNONE \<Rightarrow> Inr 0
          | LUA_TSTRING \<Rightarrow> Inr (store_field F_p (lua_tostring E stack index))
          | t \<Rightarrow> Inl (Char_ptr_requires (i + 1) t))
     | T_CHAR \<Rightarrow> CHECK_CASE E meth stack index F_c
     | T_SCHAR \<Rightarrow> CHECK_CASE E meth stack index F_sc
     | T_UCHAR \<Rightarrow> CHECK_CASE E meth stack index F_uc
     | T_SHORT \<Rightarrow> CHECK_CASE E meth stack index F_s
     | T_USHORT \<Rightarrow> CHECK_CASE E meth stack index F_us
     | T_INT8 \<Rightarrow> CHECK_CASE E meth stack index F_i8
     | T_UINT8 \<Rightarrow> CHECK_CASE E meth stack index F_u8
     | T_INT16 \<Rightarrow> CHECK_CASE E meth stack index F_i16
     | T_UINT16 \<Rightarrow> CHECK_CASE E meth stack index F_u16
     | T_INT \<Rightarrow> CHECK_CASE E meth stack index F_i
     | T_UINT \<Rightarrow> CHECK_CASE E meth stack index F_ui
     | T_INT32 \<Rightarrow> CHECK_CASE E meth stack index F_i32
     | T_UINT32 \<Rightarrow> CHECK_CASE E meth stack index F_u32
     | T_INT64 \<Rightarrow> CHECK_CASE E meth stack index F_i64
     | T_UINT64 \<Rightarrow> CHECK_CASE E meth stack index F_u64
     | T_LONG \<Rightarrow> CHECK_CASE E meth stack index F_l
     | T_ULONG \<Rightarrow> CHECK_CASE E meth stack index F_ul
     | T_LONG_LONG \<Rightarrow> CHECK_CASE E meth stack index F_ll
     | T_ULONG_LONG \<Rightarrow> CHECK_CASE E meth stack index F_ull
     | T_FLOAT \<Rightarrow>
         (case luaL_checknumber E meth stack index of
            Inl e \<Rightarrow> Inl e
          | Inr d \<Rightarrow> Inr (store_f d))
     | T_DOUBLE \<Rightarrow> luaL_checknumber E meth stack index
     | T_SIZE_T \<Rightarrow> CHECK_CASE E meth stack index F_sz
     | T_SSIZE_T \<Rightarrow> CHECK_CASE E meth stack index F_ssz
     | T_LAST \<Rightarrow> Inl (Unsupported_argument_type nm))"

text \<open>
  One turn of the loop: the switch on \<open>sym->arg_types[i]\<close>. A position outside the 32
  slots, or one whose tag was never written, leaves defined behaviour.
\<close>

definition check_arg :: "env \<Rightarrow> bool \<Rightarrow> syminfo_t \<Rightarrow> lua_value list \<Rightarrow> nat \<Rightarrow> lua_error + 64 word" where
  "check_arg E meth sy stack i =
    (if FFI_MAX_ARGS \<le> i \<or> length (sym_arg_types sy) \<le> i then Inl Undefined_behaviour
     else check_arg_type E meth (sym_name sy) (sym_arg_types sy ! i) stack i)"

text \<open>
  The loop \<open>for (int i = 0; i < nargs; i++)\<close>, entered at \<open>i\<close> with \<open>k\<close> turns to go.
  It stops at the first error; otherwise it yields the slots, \<open>arg_values\<close>.
\<close>

fun check_arguments ::
  "env \<Rightarrow> bool \<Rightarrow> syminfo_t \<Rightarrow> lua_value list \<Rightarrow> nat \<Rightarrow> nat \<Rightarrow> lua_error + 64 word list" where
  "check_arguments E meth sy stack i 0 = Inr []"
| "check_arguments E meth sy stack i (Suc k) =
     (case check_arg E meth sy stack i of
        Inl e \<Rightarrow> Inl e
      | Inr v \<Rightarrow>
          (case check_arguments E meth sy stack (Suc i) k of
             Inl e \<Rightarrow> Inl e
           | Inr vs \<Rightarrow> Inr (v # vs)))"

text \<open>
  The switch \<open>push return value\<close> for a return tag \<open>tag\<close>, on the union that the call
  has filled.
\<close>

definition push_return_type :: "env \<Rightarrow> string \<Rightarrow> datatype_t \<Rightarrow> 64 word \<Rightarrow> lua_error + lua_value list" where
  "push_return_type E nm tag retval =
    (case tag of
       T_VOID \<Rightarrow> Inr []
     | T_VOID_PTR \<Rightarrow>
         Inr [if load_field F_p retval \<noteq> 0 then LLightUserdata (load_field F_p retval) else LNil]
     | T_CHAR_PTR \<Rightarrow>
         Inr [if load_field F_p retval \<noteq> 0 then LString (cstr (mem_string E (load_field F_p retval)))
              else LNil]
     | T_CHAR \<Rightarrow> Inr [LInteger (load_field F_c retval)]
     | T_SCHAR \<Rightarrow> Inr [LInteger (load_field F_sc retval)]
     | T_UCHAR \<Rightarrow> Inr [LInteger (load_field F_uc retval)]
     | T_SHORT \<Rightarrow> Inr [LInteger (load_field F_s retval)]
     | T_USHORT \<Rightarrow> Inr [LInteger (load_field F_us retval)]
     | T_INT8 \<Rightarrow> Inr [LInteger (load_field F_i8 retval)]
     | T_UINT8 \<Rightarrow> Inr [LInteger (load_field F_u8 retval)]
     | T_INT16 \<Rightarrow> Inr [LInteger (load_field F_i16 retval)]
     | T_UINT16 \<Rightarrow> Inr [LInteger (load_field F_u16 retval)]
     | T_INT \<Rightarrow> Inr [LInteger (load_field F_i retval)]
     | T_UINT \<Rightarrow> Inr [LInteger (load_field F_ui retval)]
     | T_INT32 \<Rightarrow> Inr [LInteger (load_field F_i32 retval)]
     | T_UINT32 \<Rightarrow> Inr [LInteger (load_field F_u32 retval)]
     | T_INT64 \<Rightarrow> Inr [LInteger (load_field F_i64 retval)]
     | T_UINT64 \<Rightarrow> Inr [LInteger (load_field F_u64 retval)]
     | T_LONG \<Rightarrow> Inr [LInteger (load_field F_l retval)]
     | T_ULONG \<Rightarrow> Inr [LInteger (load_field F_ul retval)]
     | T_LONG_LONG \<Rightarrow> Inr [LInteger (load_field F_ll retval)]
     | T_ULONG_LONG \<Rightarrow> Inr [LInteger (load_field F_ull retval)]
     | T_FLOAT \<Rightarrow> Inr [LFloat (load_f retval)]
     | T_DOUBLE \<Rightarrow> Inr [LFloat retval]
     | T_SIZE_T \<Rightarrow> Inr [LInteger (load_field F_sz retval)]
     | T_SSIZE_T \<Rightarrow> Inr [LInteger (load_field F_ssz retval)]
     | T_LAST \<Rightarrow> Inl (Unsupported_return_type nm))"

definition push_return :: "env \<Rightarrow> syminfo_t \<Rightarrow> 64 word \<Rightarrow> lua_error + lua_value list" where
  "push_return E sy retval = push_return_type E (sym_name sy) (sym_ret_type sy) retval"

text \<open>
  \<open>symcall_lua\<close>, the closure that \<open>index_lua\<close> makes for a symbol. \<open>stack\<close> is the whole
  stack of the call, the handle at index 1 included. The native call is the event
  \<open>Ev_ffi_call\<close>; with a void return libffi gets no result address and the union stays
  zero.
\<close>

definition symcall_lua ::
  "env \<Rightarrow> bool \<Rightarrow> syminfo_t \<Rightarrow> lua_value list \<Rightarrow> world \<Rightarrow> (lua_error + lua_value list) \<times> world" where
  "symcall_lua E meth sy stack w =
    (let nargs = int (length stack) - 1 in
     if sym_ret_type sy = T_LAST then (Inl Undefined_behaviour, w)
     else if sym_nargs sy \<noteq> size_t_of_int nargs then
       (Inl (Invalid_number_of_arguments (sym_name sy) (int_of_size_t (sym_nargs sy)) nargs), w)
     else if RETVAL (sym_ret_type sy) = None \<and> sym_ret_type sy \<noteq> T_VOID then
       (Inl (Unsupported_return_type (sym_name sy)), w)
     else case check_arguments E meth sy stack 0 (nat nargs) of
       Inl e \<Rightarrow> (Inl e, w)
     | Inr arg_values \<Rightarrow>
         (let retval = (if RETVAL (sym_ret_type sy) = None then 0
                        else ffi_call E (sym_addr sy) (sym_ret_ffi_type sy)
                               (sym_arg_ffi_types sy) arg_values)
          in (push_return E sy retval, emit [Ev_ffi_call (sym_addr sy) arg_values] w)))"

subsection \<open>dlsym_lua\<close>

text \<open>
  The loop \<open>check arguments\<close> of \<open>dlsym_lua\<close>, entered at \<open>i\<close> with \<open>k\<close> turns to go:
  the tag at stack index \<open>4 + i\<close> is checked and stored. \<open>Inl\<close> is an error raised by
  \<open>check_ffitype\<close>, \<open>Inr None\<close> the return on a void tag, \<open>Inr (Some tys)\<close> the tags
  and descriptors written to \<open>arg_types\<close> and \<open>arg_ffi_types\<close>.
\<close>

fun check_arg_types ::
  "env \<Rightarrow> bool \<Rightarrow> lua_value list \<Rightarrow> nat \<Rightarrow> nat \<Rightarrow> lua_error + (datatype_t \<times> ffi_type) list option" where
  "check_arg_types E meth stack i 0 = Inr (Some [])"
| "check_arg_types E meth stack i (Suc k) =
     (case check_ffitype E meth stack (4 + i) of
        Inl e \<Rightarrow> Inl e
      | Inr (t, ft) \<Rightarrow>
          if t = T_VOID then Inr None
          else (case check_arg_types E meth stack (Suc i) k of
                  Inl e \<Rightarrow> Inl e
                | Inr None \<Rightarrow> Inr None
                | Inr (Some tys) \<Rightarrow> Inr (Some ((t, ft) # tys))))"

definition quoted :: "string \<Rightarrow> string" where
  "quoted s = [CHR 0x27] @ s @ [CHR 0x27]"

text \<open>
  The append at the end of \<open>dlsym_lua\<close>. With a null head the new record is head and
  tail. Otherwise it is linked behind the tail record, which puts it on the chain only
  if the tail record is on the chain.
\<close>

definition append_symbol :: "syminfo_t \<Rightarrow> dso_t \<Rightarrow> dso_t" where
  "append_symbol sy d =
    (if dso_symbols d = [] then d\<lparr>dso_symbols := [sy], dso_tail_linked := True\<rparr>
     else if dso_tail_linked d then d\<lparr>dso_symbols := dso_symbols d @ [sy]\<rparr>
     else d)"

text \<open>
  The second half of \<open>dlsym_lua\<close>, from \<open>copy symbol name\<close> on: the name is duplicated
  and resolved, the call interface prepared, the record referenced in the registry and
  appended.
\<close>

definition dlsym_bind ::
  "env \<Rightarrow> string \<Rightarrow> datatype_t \<Rightarrow> ffi_type \<Rightarrow> (datatype_t \<times> ffi_type) list \<Rightarrow> world \<Rightarrow>
   (lua_error + lua_value list) \<times> world" where
  "dlsym_bind E nm ret_type ret_ffi_type tys w =
    (if \<not> strdup_ok E nm then
       (Inr [LBoolean False, LString ''failed to allocate memory for symbol name''], w)
     else
       let handle = dso_handle (w_dso w);
           addr = dlsym E handle (cstr nm);
           w1 = emit [Ev_strdup (cstr nm), Ev_dlsym handle (cstr nm)] w
       in if addr = 0 then
            (Inr [LBoolean False,
                  LString (''failed to find symbol '' @ quoted (cstr nm) @ '': '' @ dlerror E)],
             emit [Ev_free (cstr nm)] w1)
          else
            let status = ffi_prep_cif E (length tys) ret_ffi_type (map snd tys);
                w2 = emit [Ev_ffi_prep_cif (length tys) ret_ffi_type (map snd tys)] w1
            in if status \<noteq> FFI_OK then
                 (Inr [LBoolean False,
                       LString (''failed to prepare FFI call interface for symbol '' @ quoted (cstr nm)
                                @ '' ('' @ ffi_status_message status @ '')'')],
                  emit [Ev_free (cstr nm)] w2)
               else
                 let sy = \<lparr>sym_ref = w_ref w, sym_addr = addr, sym_len = length nm,
                           sym_name = cstr nm, sym_ret_type = ret_type,
                           sym_ret_ffi_type = ret_ffi_type, sym_nargs = length tys,
                           sym_arg_types = map fst tys, sym_arg_ffi_types = map snd tys\<rparr>
                 in (Inr [LBoolean True],
                     emit [Ev_luaL_ref (w_ref w)]
                       (w2\<lparr>w_dso := append_symbol sy (w_dso w), w_ref := w_ref w + 1\<rparr>)))"

text \<open>
  \<open>dlsym_lua\<close>: the stack holds the handle, the return tag, the name and the argument
  tags. A failure that the function reports is the pair \<open>false, message\<close>; a failed
  check of lauxlib is a raised error.
\<close>

definition dlsym_lua ::
  "env \<Rightarrow> bool \<Rightarrow> lua_value list \<Rightarrow> world \<Rightarrow> (lua_error + lua_value list) \<times> world" where
  "dlsym_lua E meth stack w =
    (let nargs = int (length stack) - 1 in
     case luaL_checkudata meth stack w of
       Some e \<Rightarrow> (Inl e, w)
     | None \<Rightarrow>
         if nargs < 2 \<or> int FFI_MAX_ARGS + 2 < nargs then
           (Inr [LBoolean False, LString ''number of arguments at least 2 and at most 34''], w)
         else case check_ffitype E meth stack 2 of
           Inl e \<Rightarrow> (Inl e, w)
         | Inr (ret_type, ret_ffi_type) \<Rightarrow>
             (case luaL_checklstring E meth stack 3 of
                Inl e \<Rightarrow> (Inl e, w)
              | Inr nm \<Rightarrow>
                  (case check_arg_types E meth stack 0 (nat (nargs - 2)) of
                     Inl e \<Rightarrow> (Inl e, w)
                   | Inr None \<Rightarrow>
                       (Inr [LBoolean False, LString ''void cannot be used as argument type''], w)
                   | Inr (Some tys) \<Rightarrow> dlsym_bind E nm ret_type ret_ffi_type tys w)))"

subsection \<open>dso_close, dlclose_lua, gc_lua\<close>

text \<open>
  \<open>dso_close\<close>. On an open library it frees the path, walks the chain (each name
  freed, each record unreferenced, its \<open>ref\<close> and \<open>next\<close> reset), nulls the handle and
  returns what \<open>dlclose\<close> returns. \<open>symbols_head\<close> and \<open>symbols_tail\<close> keep their values:
  what is left on the chain is the head record, and the tail pointer is on the chain
  only if it is that record. On a closed library it returns 0.
\<close>

definition dso_close :: "env \<Rightarrow> world \<Rightarrow> int \<times> world" where
  "dso_close E w =
    (let d = w_dso w; handle = dso_handle d in
     if handle \<noteq> 0 then
       (dlclose E handle,
        emit ((case dso_path d of None \<Rightarrow> [] | Some p \<Rightarrow> [Ev_free p])
              @ concat (map (\<lambda>sy. [Ev_free (sym_name sy), Ev_luaL_unref (sym_ref sy)]) (dso_symbols d))
              @ [Ev_dlclose handle])
          (w\<lparr>w_dso := d\<lparr>dso_path := None,
                         dso_symbols := (case dso_symbols d of [] \<Rightarrow> []
                                         | sy # rest \<Rightarrow> [sy\<lparr>sym_ref := LUA_NOREF\<rparr>]),
                         dso_tail_linked := (dso_tail_linked d \<and> length (dso_symbols d) \<le> 1),
                         dso_handle := 0\<rparr>\<rparr>))
     else (0, w))"

definition dlclose_lua ::
  "env \<Rightarrow> bool \<Rightarrow> lua_value list \<Rightarrow> world \<Rightarrow> (lua_error + lua_value list) \<times> world" where
  "dlclose_lua E meth stack w =
    (case luaL_checkudata meth stack w of
       Some e \<Rightarrow> (Inl e, w)
     | None \<Rightarrow>
         (case dso_close E w of
            (r, w') \<Rightarrow>
              if r = 0 then (Inr [LBoolean True], w')
              else (Inr [LBoolean False, LString (''failed to close module: '' @ dlerror E)], w')))"

definition gc_lua ::
  "env \<Rightarrow> bool \<Rightarrow> lua_value list \<Rightarrow> world \<Rightarrow> (lua_error + lua_value list) \<times> world" where
  "gc_lua E meth stack w =
    (case luaL_checkudata meth stack w of
       Some e \<Rightarrow> (Inl e, w)
     | None \<Rightarrow> (Inr [], snd (dso_close E w)))"

subsection \<open>index_lua\<close>

text \<open>What \<open>index_lua\<close> pushes: one of the two methods, or the closure of a symbol.\<close>

datatype cfunction = Cdlsym_lua | Cdlclose_lua | Csymcall_lua syminfo_t

text \<open>
  The loop \<open>traverse symbols\<close>: the first record of the chain with \<open>len == sym->len\<close> and
  \<open>strncmp(method, sym->name, len) == 0\<close>.
\<close>

fun traverse_symbols :: "string \<Rightarrow> nat \<Rightarrow> syminfo_t list \<Rightarrow> syminfo_t option" where
  "traverse_symbols method len [] = None"
| "traverse_symbols method len (sy # rest) =
     (if len = sym_len sy \<and> strncmp_eq method (sym_name sy) len then Some sy
      else traverse_symbols method len rest)"

text \<open>
  \<open>index_lua\<close>, the \<open>__index\<close> metamethod: the stack holds the handle and the key. The
  closure is modelled with the record as it is at this moment.
\<close>

definition index_lua :: "env \<Rightarrow> lua_value list \<Rightarrow> world \<Rightarrow> lua_error + cfunction" where
  "index_lua E stack w =
    (case luaL_checkudata False stack w of
       Some e \<Rightarrow> Inl e
     | None \<Rightarrow>
         (case luaL_checklstring E False stack 2 of
            Inl e \<Rightarrow> Inl e
          | Inr method \<Rightarrow>
              let len = length method in
              if dso_handle (w_dso w) = 0 then Inl Module_is_closed
              else if strncmp_eq method ''dlsym'' len then Inr Cdlsym_lua
              else if strncmp_eq method ''dlclose'' len then Inr Cdlclose_lua
              else (case traverse_symbols method len (dso_symbols (w_dso w)) of
                      Some sy \<Rightarrow> Inr (Csymcall_lua sy)
                    | None \<Rightarrow> Inl (Unknown_field (cstr method)))))"

subsection \<open>new_lua and the calls of a script\<close>

text \<open>
  \<open>new_lua\<close>: the path is duplicated and opened. \<open>r\<close> is the next free reference of the
  registry. The result carries the world of the new library when there is one.
\<close>

definition new_lua ::
  "env \<Rightarrow> bool \<Rightarrow> lua_value list \<Rightarrow> int \<Rightarrow> (lua_error + lua_value list) \<times> world option" where
  "new_lua E meth stack r =
    (case luaL_checklstring E meth stack 1 of
       Inl e \<Rightarrow> (Inl e, None)
     | Inr path \<Rightarrow>
         if \<not> strdup_ok E path then
           (Inr [LNil, LString ''failed to allocate memory for path''], None)
         else if dlopen E (cstr path) = 0 then
           (Inr [LNil, LString (''failed to open module '' @ quoted (cstr path) @ '': '' @ dlerror E)],
            None)
         else
           (Inr [LUserdata (lua_newuserdata E)],
            Some \<lparr>w_dso = \<lparr>dso_self = lua_newuserdata E, dso_handle = dlopen E (cstr path),
                           dso_path = Some (cstr path), dso_symbols = [], dso_tail_linked = True\<rparr>,
                  w_ref = r,
                  w_trace = [Ev_strdup (cstr path), Ev_dlopen (cstr path)]\<rparr>))"

text \<open>A call of a function value that \<open>index_lua\<close> has handed out.\<close>

definition call_cfunction ::
  "env \<Rightarrow> bool \<Rightarrow> cfunction \<Rightarrow> lua_value list \<Rightarrow> world \<Rightarrow> (lua_error + lua_value list) \<times> world" where
  "call_cfunction E meth f stack w =
    (case f of
       Cdlsym_lua \<Rightarrow> dlsym_lua E meth stack w
     | Cdlclose_lua \<Rightarrow> dlclose_lua E meth stack w
     | Csymcall_lua sy \<Rightarrow> symcall_lua E meth sy stack w)"

text \<open>
  The Lua expression \<open>lib:key(args)\<close>, the way a script declares, invokes and closes
  through a handle: \<open>lib[key]\<close> is looked up, which runs \<open>index_lua\<close>, and the function
  found is called as a method, with the handle as its first argument.
\<close>

definition method_call ::
  "env \<Rightarrow> lua_value \<Rightarrow> lua_value list \<Rightarrow> world \<Rightarrow> (lua_error + lua_value list) \<times> world" where
  "method_call E key args w =
    (let self = LUserdata (dso_self (w_dso w)) in
     case index_lua E [self, key] w of
       Inl e \<Rightarrow> (Inl e, w)
     | Inr f \<Rightarrow> call_cfunction E True f (self # args) w)"

subsection \<open>A concrete library\<close>

text \<open>
  Surroundings to run the model in: a library \<open>libexample.so\<close> that exports \<open>add\<close>
  (the sum of its arguments), \<open>getenv\<close> (always the null pointer), \<open>greeting\<close> (a
  pointer to the bytes \<open>hello\<close>) and \<open>dlsym\<close>.
\<close>

definition example_env :: env where
  "example_env =
    \<lparr>l_strton = (\<lambda>s. if s = ''10'' then Some (LInteger 10) else None),
     lua_numtostr = (\<lambda>v. ''1''),
     lua_string_ptr = (\<lambda>s. 0x7000),
     mem_string = (\<lambda>p. if p = 0x5000 then ''hello'' else []),
     lua_newuserdata = 0x100,
     strdup_ok = (\<lambda>s. True),
     dlopen = (\<lambda>p. if p = ''libexample.so'' then 0x200 else 0),
     dlsym = (\<lambda>h nm. if h \<noteq> 0x200 then 0
                      else if nm = ''add'' then 0x1000
                      else if nm = ''getenv'' then 0x2000
                      else if nm = ''greeting'' then 0x3000
                      else if nm = ''dlsym'' then 0x4000
                      else 0),
     dlclose = (\<lambda>h. 0),
     dlerror = ''undefined symbol'',
     ffi_prep_cif = (\<lambda>n rt ats. FFI_OK),
     ffi_call = (\<lambda>addr rt ats slots.
                   if addr = 0x1000 then sum_list slots
                   else if addr = 0x3000 then 0x5000
                   else 0)\<rparr>"

text \<open>The world right after \<open>libexample.so\<close> has been opened, and its handle.\<close>

definition example_world :: world where
  "example_world =
    \<lparr>w_dso = \<lparr>dso_self = 0x100, dso_handle = 0x200, dso_path = Some ''libexample.so'',
               dso_symbols = [], dso_tail_linked = True\<rparr>,
     w_ref = 1,
     w_trace = [Ev_strdup ''libexample.so'', Ev_dlopen ''libexample.so'']\<rparr>"

definition example_lib :: lua_value where
  "example_lib = LUserdata 0x100"

text \<open>The world after \<open>lib:dlsym('int', 'add', 'int', 'int')\<close>, and the record of \<open>add\<close>.\<close>

definition add_symbol :: syminfo_t where
  "add_symbol =
    \<lparr>sym_ref = 1, sym_addr = 0x1000, sym_len = 3, sym_name = ''add'', sym_ret_type = T_INT,
     sym_ret_ffi_type = ffi_type_sint, sym_nargs = 2, sym_arg_types = [T_INT, T_INT],
     sym_arg_ffi_types = [ffi_type_sint, ffi_type_sint]\<rparr>"

definition example_declared :: world where
  "example_declared =
    \<lparr>w_dso = \<lparr>dso_self = 0x100, dso_handle = 0x200, dso_path = Some ''libexample.so'',
               dso_symbols = [add_symbol], dso_tail_linked = True\<rparr>,
     w_ref = 2,
     w_trace = [Ev_strdup ''libexample.so'', Ev_dlopen ''libexample.so'',
                Ev_strdup ''add'', Ev_dlsym 0x200 ''add'',
                Ev_ffi_prep_cif 2 ffi_type_sint [ffi_type_sint, ffi_type_sint], Ev_luaL_ref 1]\<rparr>"

text \<open>The world after \<open>lib:dlclose()\<close> on \<open>example_world\<close>.\<close>

definition example_closed :: world where
  "example_closed =
    \<lparr>w_dso = \<lparr>dso_self = 0x100, dso_handle = 0, dso_path = None,
               dso_symbols = [], dso_tail_linked = True\<rparr>,
     w_ref = 1,
     w_trace = [Ev_strdup ''libexample.so'', Ev_dlopen ''libexample.so'',
                Ev_free ''libexample.so'', Ev_dlclose 0x200]\<rparr>"

text \<open>
  The world after \<open>lib:dlclose()\<close> on \<open>example_declared\<close>: the record of \<open>add\<close> is
  still what \<open>symbols_head\<close> points to, unreferenced, and its address is that of a
  function of the unloaded library.
\<close>

definition example_declared_closed :: world where
  "example_declared_closed =
    \<lparr>w_dso = \<lparr>dso_self = 0x100, dso_handle = 0, dso_path = None,
               dso_symbols = [add_symbol\<lparr>sym_ref := LUA_NOREF\<rparr>], dso_tail_linked = True\<rparr>,
     w_ref = 2,
     w_trace = [Ev_strdup ''libexample.so'', Ev_dlopen ''libexample.so'',
                Ev_strdup ''add'', Ev_dlsym 0x200 ''add'',
                Ev_ffi_prep_cif 2 ffi_type_sint [ffi_type_sint, ffi_type_sint], Ev_luaL_ref 1,
                Ev_free ''libexample.so'', Ev_free ''add'', Ev_luaL_unref 1, Ev_dlclose 0x200]\<rparr>"

text \<open>
  The world after \<open>lib:dlsym('void*', 'dlsym', 'void*', 'char*')\<close> on \<open>example_world\<close>:
  the library's own \<open>dlsym\<close> is in the table.
\<close>

definition dlsym_symbol :: syminfo_t where
  "dlsym_symbol =
    \<lparr>sym_ref = 1, sym_addr = 0x4000, sym_len = 5, sym_name = ''dlsym'', sym_ret_type = T_VOID_PTR,
     sym_ret_ffi_type = ffi_type_pointer, sym_nargs = 2, sym_arg_types = [T_VOID_PTR, T_CHAR_PTR],
     sym_arg_ffi_types = [ffi_type_pointer, ffi_type_pointer]\<rparr>"

definition example_shadowed :: world where
  "example_shadowed =
    \<lparr>w_dso = \<lparr>dso_self = 0x100, dso_handle = 0x200, dso_path = Some ''libexample.so'',
               dso_symbols = [dlsym_symbol], dso_tail_linked = True\<rparr>,
     w_ref = 2,
     w_trace = [Ev_strdup ''libexample.so'', Ev_dlopen ''libexample.so'',
                Ev_strdup ''dlsym'', Ev_dlsym 0x200 ''dlsym'',
                Ev_ffi_prep_cif 2 ffi_type_pointer [ffi_type_pointer, ffi_type_pointer],
                Ev_luaL_ref 1]\<rparr>"

subsection \<open>Reachable worlds and the invariant of a stored symbol\<close>

text \<open>
  The worlds that a script can bring about: \<open>new_lua\<close> opens the library; then any of
  the functions that \<open>index_lua\<close> hands out is called, with any stack, as a method or
  not, and the finalizer runs. \<open>index_lua\<close> itself changes nothing.
\<close>

inductive reachable :: "env \<Rightarrow> world \<Rightarrow> bool" for E :: env where
  opened: "new_lua E meth stack r = (res, Some w) \<Longrightarrow> reachable E w"
| called: "reachable E w \<Longrightarrow> call_cfunction E meth f stack w = (res, w') \<Longrightarrow> reachable E w'"
| collected: "reachable E w \<Longrightarrow> gc_lua E meth stack w = (res, w') \<Longrightarrow> reachable E w'"

text \<open>
  What \<open>dlsym_lua\<close> establishes for a record: at most 32 argument tags, as many as
  \<open>nargs\<close> says, none of them \<open>void\<close> or the sentinel, a return tag that is not the
  sentinel, and a name that is a C string no longer than \<open>len\<close>.
\<close>

definition sym_inv :: "syminfo_t \<Rightarrow> bool" where
  "sym_inv sy \<longleftrightarrow>
     sym_nargs sy \<le> FFI_MAX_ARGS \<and>
     length (sym_arg_types sy) = sym_nargs sy \<and>
     length (sym_arg_ffi_types sy) = sym_nargs sy \<and>
     T_VOID \<notin> set (sym_arg_types sy) \<and>
     T_LAST \<notin> set (sym_arg_types sy) \<and>
     sym_ret_type sy \<noteq> T_LAST \<and>
     NUL \<notin> set (sym_name sy) \<and>
     length (sym_name sy) \<le> sym_len sy"

text \<open>
  The outcomes of \<open>symcall_lua\<close> that are there for a broken record only: a run outside
  the arrays, the guard against a void argument, and the default branch of the
  argument switch.
\<close>

fun guard_error :: "lua_error \<Rightarrow> bool" where
  "guard_error Undefined_behaviour = True"
| "guard_error (Void_as_argument n) = True"
| "guard_error (Unsupported_argument_type nm) = True"
| "guard_error e = False"

text \<open>
  An argument error that gives the position \<open>p\<close> and says what was expected: one of the
  two messages of the module for a pointer tag, or the message of lauxlib for a number.
\<close>

fun arg_error_at :: "nat \<Rightarrow> lua_error \<Rightarrow> bool" where
  "arg_error_at p (Void_ptr_requires n t) = (n = p)"
| "arg_error_at p (Char_ptr_requires n t) = (n = p)"
| "arg_error_at p (Bad_argument n (Type_expected tn t)) = (n = p \<and> tn = ''number'')"
| "arg_error_at p (Bad_argument n No_integer_representation) = (n = p)"
| "arg_error_at p e = False"



text \<open>The invariant of the whole table.\<close>

definition table_inv :: "world \<Rightarrow> bool" where
  "table_inv w \<longleftrightarrow> (\<forall>sy \<in> set (dso_symbols (w_dso w)). sym_inv sy)"

text \<open>
  Lua bounds the stack of a call by \<open>LUAI_MAXSTACK\<close>, so that \<open>lua_gettop\<close> fits the
  \<open>int\<close> that the module stores it in. Statements about a call assume a stack within
  this bound.
\<close>

definition LUAI_MAXSTACK :: nat where
  "LUAI_MAXSTACK = 1000000"

text \<open>
  A caller value that the native representation of a tag can take, in the terms of the
  Lua API: a pointer tag takes nil (or nothing) and a userdata, \<open>char*\<close> a string in
  place of the userdata; an integer tag takes what Lua converts to an integer, \<open>float\<close>
  and \<open>double\<close> what Lua converts to a number. \<open>index\<close> is the stack index of the value.
\<close>

definition coercible :: "env \<Rightarrow> datatype_t \<Rightarrow> lua_value list \<Rightarrow> nat \<Rightarrow> bool" where
  "coercible E tag stack index =
    (case tag of
       T_VOID \<Rightarrow> False
     | T_LAST \<Rightarrow> False
     | T_VOID_PTR \<Rightarrow> lua_type stack index \<in> {LUA_TNIL, LUA_TNONE, LUA_TLIGHTUSERDATA, LUA_TUSERDATA}
     | T_CHAR_PTR \<Rightarrow> lua_type stack index \<in> {LUA_TNIL, LUA_TNONE, LUA_TSTRING}
     | T_FLOAT \<Rightarrow> lua_tonumberx E stack index \<noteq> None
     | T_DOUBLE \<Rightarrow> lua_tonumberx E stack index \<noteq> None
     | _ \<Rightarrow> lua_tointegerx E stack index \<noteq> None)"

text \<open>
  The number by which an argument error names the argument at the 0-based position
  \<open>i\<close>. The messages of the module for the pointer tags say \<open>i + 1\<close>. For the other tags
  lauxlib gets the stack index \<open>2 + i\<close>, and reports it less one in a method call.
\<close>

definition arg_position :: "bool \<Rightarrow> datatype_t \<Rightarrow> nat \<Rightarrow> nat" where
  "arg_position meth tag i = (if meth \<or> tag = T_VOID_PTR \<or> tag = T_CHAR_PTR then Suc i else Suc (Suc i))"

text \<open>The world after \<open>lib:dlsym('char*', 'getenv', 'char*')\<close> on \<open>example_world\<close>.\<close>

definition getenv_symbol :: syminfo_t where
  "getenv_symbol =
    \<lparr>sym_ref = 1, sym_addr = 0x2000, sym_len = 6, sym_name = ''getenv'', sym_ret_type = T_CHAR_PTR,
     sym_ret_ffi_type = ffi_type_pointer, sym_nargs = 1, sym_arg_types = [T_CHAR_PTR],
     sym_arg_ffi_types = [ffi_type_pointer]\<rparr>"

definition example_getenv :: world where
  "example_getenv =
    \<lparr>w_dso = \<lparr>dso_self = 0x100, dso_handle = 0x200, dso_path = Some ''libexample.so'',
               dso_symbols = [getenv_symbol], dso_tail_linked = True\<rparr>,
     w_ref = 2,
     w_trace = [Ev_strdup ''libexample.so'', Ev_dlopen ''libexample.so'',
                Ev_strdup ''getenv'', Ev_dlsym 0x200 ''getenv'',
                Ev_ffi_prep_cif 1 ffi_type_pointer [ffi_type_pointer], Ev_luaL_ref 1]\<rparr>"


section \<open>Properties\<close>

subsection \<open>Evaluation on concrete input\<close>

lemma check_arg_types_numeral:
  "check_arg_types E meth stack i (numeral n) = check_arg_types E meth stack i (Suc (pred_numeral n))"
  by (simp add: numeral_eq_Suc)

lemma check_arguments_numeral:
  "check_arguments E meth sy stack i (numeral n) = check_arguments E meth sy stack i (Suc (pred_numeral n))"
  by (simp add: numeral_eq_Suc)

lemma strncmp_eq_numeral:
  "strncmp_eq a b (numeral n) = strncmp_eq a b (Suc (pred_numeral n))"
  by (simp add: numeral_eq_Suc)

lemmas model_defs =
  check_arg_types_numeral check_arguments_numeral strncmp_eq_numeral
  dlsym_lua_def dlsym_bind_def check_ffitype_def luaL_checkoption_def luaL_checklstring_def
  luaL_checkudata_def stack_value_def type_names_def strcmp_eq_def cstr_def NUL_def
  datatype_of_nat_def datatype_list_def FFI_MAX_ARGS_def emit_def append_symbol_def Let_def
  call_cfunction_def method_call_def index_lua_def new_lua_def
  dlclose_lua_def dso_close_def gc_lua_def quoted_def

lemmas call_defs =
  symcall_lua_def check_arg_def check_arg_type_def CHECK_CASE_def luaL_checkinteger_def
  luaL_checknumber_def lua_tointegerx_def lua_tonumberx_def lua_isnumber_def tonumber_def
  luaL_typeerror_def luaL_argerror_def lua_type_def size_t_of_int_def int_of_size_t_def
  push_return_def push_return_type_def store_field_def load_field_def lua_topointer_def
  lua_tostring_def

lemmas example_defs =
  example_env_def example_world_def example_lib_def example_declared_def add_symbol_def
  example_closed_def example_shadowed_def dlsym_symbol_def example_getenv_def getenv_symbol_def

subsection \<open>The stack and the small casts\<close>

lemma stack_value_Cons1 [simp]: "stack_value (v # vs) (Suc 0) = Some v"
  by (simp add: stack_value_def)

lemma luaL_checkudata_self:
  "luaL_checkudata meth (LUserdata (dso_self (w_dso w)) # args) w = None"
  by (simp add: luaL_checkudata_def)

lemma int_of_size_t_small: "n \<le> 32 \<Longrightarrow> int_of_size_t n = int n"
  using sint_sbintrunc'[where 'a=32 and bin="int n"]
  by (simp add: int_of_size_t_def signed_take_bit_int_eq_self_iff)

lemma size_t_of_int_neq:
  assumes "n \<le> 32" "k \<noteq> int n" "- 1 \<le> k" "k < 2 ^ 63"
  shows "n \<noteq> size_t_of_int k"
proof (cases "0 \<le> k")
  case True
  then have "k mod 2 ^ 64 = k" using assms by simp
  then show ?thesis using assms True by (auto simp: size_t_of_int_def)
next
  case False
  then have "k = -1" using assms by simp
  then show ?thesis using assms by (simp add: size_t_of_int_def)
qed

lemma size_t_of_int_eq:
  assumes "n = size_t_of_int k" "n \<le> 32" "- 1 \<le> k" "k < 2 ^ 63"
  shows "k = int n"
  using size_t_of_int_neq[of n k] assms by blast

lemma load_field_p [simp]: "load_field F_p u = u"
  by (simp add: load_field_def take_bit_word_eq_self)

subsection \<open>C strings\<close>

lemma cstr_id: "NUL \<notin> set s \<Longrightarrow> cstr s = s"
  by (auto simp: cstr_def)

lemma cstr_no_NUL: "NUL \<notin> set (cstr s)"
  unfolding cstr_def by (metis (mono_tags, lifting) set_takeWhileD)

lemma cstr_length: "length (cstr s) \<le> length s"
  unfolding cstr_def by (rule length_takeWhile_le)

lemma strcmp_eq_plain: "NUL \<notin> set a \<Longrightarrow> NUL \<notin> set b \<Longrightarrow> strcmp_eq a b \<longleftrightarrow> a = b"
  by (simp add: strcmp_eq_def cstr_id)


subsection \<open>Closing\<close>

lemma dso_close_closed: "dso_close E w0 = (r, w) \<Longrightarrow> dso_handle (w_dso w) = 0"
  by (auto simp: dso_close_def Let_def emit_def split: if_splits)

lemma dso_close_self: "dso_close E w0 = (r, w) \<Longrightarrow> dso_self (w_dso w) = dso_self (w_dso w0)"
  by (auto simp: dso_close_def Let_def emit_def split: if_splits)

lemma dso_close_again: "dso_handle (w_dso w) = 0 \<Longrightarrow> dso_close E w = (0, w)"
  by (simp add: dso_close_def)

lemma index_lua_closed:
  "dso_handle (w_dso w) = 0 \<Longrightarrow>
   index_lua E [LUserdata (dso_self (w_dso w)), LString key] w = Inl Module_is_closed"
  by (simp add: index_lua_def luaL_checkudata_self luaL_checklstring_def stack_value_def)

lemma method_call_closed:
  "dso_handle (w_dso w) = 0 \<Longrightarrow> method_call E (LString key) args w = (Inl Module_is_closed, w)"
  by (simp add: method_call_def index_lua_closed)

lemma method_call_dlsym:
  "dso_handle (w_dso w) \<noteq> 0 \<Longrightarrow>
   method_call E (LString ''dlsym'') args w = dlsym_lua E True (LUserdata (dso_self (w_dso w)) # args) w"
  by (simp add: method_call_def index_lua_def luaL_checkudata_self luaL_checklstring_def
      stack_value_def call_cfunction_def strncmp_eq_numeral NUL_def)

lemma new_lua_example:
  "new_lua example_env False [LString ''libexample.so''] 1 = (Inr [example_lib], Some example_world)"
  by (simp add: model_defs example_defs)

lemma reachable_example_world: "reachable example_env example_world"
  using new_lua_example by (rule reachable.opened)

lemma dlclose_example:
  "dlclose_lua example_env True [example_lib] example_world = (Inr [LBoolean True], example_closed)"
  by (simp add: model_defs example_defs)

text \<open>
  C1, as the spec states it, fails on the code: the second \<open>lib:dlclose()\<close> of a script
  does not reach the close function. \<open>index_lua\<close> checks the handle before it dispatches
  any method, \<open>dlclose\<close> included, and raises \<open>module is closed\<close>.
\<close>

theorem second_close_through_handle_counterexample:
  "method_call example_env (LString ''dlclose'') [] example_world = (Inr [LBoolean True], example_closed) \<and>
   method_call example_env (LString ''dlclose'') [] example_closed = (Inl Module_is_closed, example_closed)"
  by (simp add: model_defs example_defs)

text \<open>
  C1, amended. After a close that has succeeded on a handle, the close function itself
  (\<open>dlclose_lua\<close>, called through a function value taken from the handle before the
  close) reports success again and changes nothing, and so does the finalizer
  \<open>gc_lua\<close>; the method call \<open>lib:dlclose()\<close> on the closed handle raises
  \<open>module is closed\<close> and changes nothing.
\<close>

theorem close_after_close:
  assumes "dlclose_lua E meth stack w0 = (Inr [LBoolean True], w)"
  shows "dlclose_lua E meth' stack w = (Inr [LBoolean True], w) \<and>
         gc_lua E meth' stack w = (Inr [], w) \<and>
         method_call E (LString ''dlclose'') args w = (Inl Module_is_closed, w)"
proof -
  from assms have ud: "luaL_checkudata meth stack w0 = None"
    by (auto simp: dlclose_lua_def split: option.splits)
  then have sv: "stack_value stack 1 = Some (LUserdata (dso_self (w_dso w0)))"
    by (auto simp: luaL_checkudata_def split: if_splits)
  from assms ud obtain r where dc: "dso_close E w0 = (r, w)"
    by (auto simp: dlclose_lua_def split: prod.splits if_splits)
  note cl = dso_close_closed[OF dc]
  have ud': "luaL_checkudata meth' stack w = None"
    using sv dso_close_self[OF dc] by (simp add: luaL_checkudata_def)
  show ?thesis
    using ud' cl by (simp add: dlclose_lua_def gc_lua_def dso_close_again method_call_closed)
qed

theorem close_after_close_witness:
  "dlclose_lua example_env True [example_lib] example_world = (Inr [LBoolean True], example_closed) \<and>
   dlclose_lua example_env False [example_lib] example_closed = (Inr [LBoolean True], example_closed) \<and>
   gc_lua example_env False [example_lib] example_closed = (Inr [], example_closed) \<and>
   method_call example_env (LString ''dlclose'') [] example_closed = (Inl Module_is_closed, example_closed)"
  using close_after_close[OF dlclose_example, of False "[]"] dlclose_example by simp

text \<open>
  C2 states that on a closed handle every declare and every invoke fails as already
  closed, before a name is resolved or a native function is called. The code checks
  this in \<open>index_lua\<close> only, so it holds for \<open>lib:dlsym(...)\<close> and \<open>lib:add(...)\<close>
  written after the close. \<open>dlsym_lua\<close> and \<open>symcall_lua\<close> do not look at the handle.
  A script that keeps the two function values,
  \<open>local declare, add = lib.dlsym, lib.add\<close>, and then closes with \<open>lib:dlclose()\<close>,
  still gets through: \<open>declare(lib, 'int', 'add', 'int', 'int')\<close> calls \<open>dlsym\<close> with the
  null handle, and \<open>add(lib, 2, 3)\<close> calls \<open>ffi_call\<close> at the address that was resolved
  in the library now unloaded, and returns its result.
\<close>

theorem closed_handle_kept_functions_get_through:
  "index_lua example_env [example_lib, LString ''dlsym''] example_declared = Inr Cdlsym_lua \<and>
   index_lua example_env [example_lib, LString ''add''] example_declared
     = Inr (Csymcall_lua add_symbol) \<and>
   method_call example_env (LString ''dlclose'') [] example_declared
     = (Inr [LBoolean True], example_declared_closed) \<and>
   method_call example_env (LString ''add'') [LInteger 2, LInteger 3] example_declared_closed
     = (Inl Module_is_closed, example_declared_closed) \<and>
   call_cfunction example_env False Cdlsym_lua
      [example_lib, LString ''int'', LString ''add'', LString ''int'', LString ''int'']
      example_declared_closed
     = (Inr [LBoolean False,
             LString (''failed to find symbol '' @ quoted ''add'' @ '': undefined symbol'')],
        emit [Ev_strdup ''add'', Ev_dlsym 0 ''add'', Ev_free ''add''] example_declared_closed) \<and>
   call_cfunction example_env False (Csymcall_lua add_symbol)
      [example_lib, LInteger 2, LInteger 3] example_declared_closed
     = (Inr [LInteger 5], emit [Ev_ffi_call 0x1000 [2, 3]] example_declared_closed)"
  by (simp add: model_defs call_defs example_defs example_declared_closed_def)

subsection \<open>The invariant of the table\<close>

lemma check_ffitype_Inr:
  "check_ffitype E meth stack idx = Inr (t, ft) \<Longrightarrow> t \<noteq> T_LAST \<and> FFI_TYPE_CASE t = Some ft"
  by (auto simp: check_ffitype_def split: sum.splits option.splits)

lemma check_arg_types_Some:
  "check_arg_types E meth stack i k = Inr (Some tys) \<Longrightarrow>
     length tys = k \<and> T_VOID \<notin> fst ` set tys \<and> T_LAST \<notin> fst ` set tys"
proof (induction k arbitrary: i tys)
  case 0
  then show ?case by simp
next
  case (Suc k)
  from Suc.prems obtain t ft tys' where
    c: "check_ffitype E meth stack (4 + i) = Inr (t, ft)" and v: "t \<noteq> T_VOID"
    and r: "check_arg_types E meth stack (Suc i) k = Inr (Some tys')" and e: "tys = (t, ft) # tys'"
    by (auto split: sum.splits prod.splits if_splits option.splits)
  from Suc.IH[OF r] check_ffitype_Inr[OF c] v e show ?case by auto
qed

lemma append_symbol_set:
  "set (dso_symbols (append_symbol sy d)) \<subseteq> insert sy (set (dso_symbols d))"
  by (auto simp: append_symbol_def)

lemma dlsym_bind_inv:
  assumes "table_inv w" and "dlsym_bind E nm rt rft tys w = (res, w')"
    and "length tys \<le> 32" and "T_VOID \<notin> fst ` set tys" and "T_LAST \<notin> fst ` set tys"
    and "rt \<noteq> T_LAST"
  shows "table_inv w'"
proof -
  let ?sy = "\<lparr>sym_ref = w_ref w, sym_addr = dlsym E (dso_handle (w_dso w)) (cstr nm),
              sym_len = length nm, sym_name = cstr nm, sym_ret_type = rt,
              sym_ret_ffi_type = rft, sym_nargs = length tys,
              sym_arg_types = map fst tys, sym_arg_ffi_types = map snd tys\<rparr>"
  have sy: "sym_inv ?sy"
    using assms(3-6) by (simp add: sym_inv_def FFI_MAX_ARGS_def cstr_no_NUL cstr_length)
  have "w_dso w' = w_dso w \<or> w_dso w' = append_symbol ?sy (w_dso w)"
    using assms(2) by (auto simp: dlsym_bind_def Let_def emit_def split: if_splits)
  then show ?thesis
    using assms(1) sy append_symbol_set[of ?sy "w_dso w"] by (auto simp: table_inv_def)
qed

lemma dlsym_lua_inv:
  assumes "table_inv w" and "dlsym_lua E meth stack w = (res, w')"
  shows "table_inv w'"
proof (cases "\<exists>rt rft nm tys. check_ffitype E meth stack 2 = Inr (rt, rft)
          \<and> check_arg_types E meth stack 0 (nat (int (length stack) - 1 - 2)) = Inr (Some tys)
          \<and> int (length stack) - 1 \<le> 34
          \<and> dlsym_bind E nm rt rft tys w = (res, w')")
  case True
  then obtain rt rft nm tys where
    c: "check_ffitype E meth stack 2 = Inr (rt, rft)"
    and a: "check_arg_types E meth stack 0 (nat (int (length stack) - 1 - 2)) = Inr (Some tys)"
    and n: "int (length stack) - 1 \<le> 34"
    and b: "dlsym_bind E nm rt rft tys w = (res, w')" by blast
  from check_arg_types_Some[OF a] n
  have "length tys \<le> 32" "T_VOID \<notin> fst ` set tys" "T_LAST \<notin> fst ` set tys"
    by auto
  with dlsym_bind_inv[OF assms(1) b] check_ffitype_Inr[OF c] show ?thesis by blast
next
  case False
  with assms(2) have "w' = w"
    by (auto simp: dlsym_lua_def Let_def FFI_MAX_ARGS_def
             split: option.splits if_splits sum.splits prod.splits)
  with assms(1) show ?thesis by simp
qed

lemma dso_close_inv:
  assumes "table_inv w" and "dso_close E w = (r, w')"
  shows "table_inv w'"
  using assms
  by (auto simp: dso_close_def Let_def emit_def table_inv_def sym_inv_def split: if_splits list.splits)

lemma symcall_lua_dso: "symcall_lua E meth sy stack w = (res, w') \<Longrightarrow> w_dso w' = w_dso w"
  by (auto simp: symcall_lua_def Let_def emit_def split: if_splits sum.splits)

lemma call_cfunction_inv:
  assumes "table_inv w" and "call_cfunction E meth f stack w = (res, w')"
  shows "table_inv w'"
proof (cases f)
  case Cdlsym_lua
  with assms show ?thesis by (auto simp: call_cfunction_def intro: dlsym_lua_inv)
next
  case Cdlclose_lua
  with assms show ?thesis
    by (auto simp: call_cfunction_def dlclose_lua_def split: option.splits prod.splits if_splits
             intro: dso_close_inv)
next
  case (Csymcall_lua sy)
  with assms symcall_lua_dso[of E meth sy stack w res w'] show ?thesis
    by (simp add: call_cfunction_def table_inv_def)
qed

lemma reachable_table_inv: "reachable E w \<Longrightarrow> table_inv w"
proof (induction rule: reachable.induct)
  case (opened meth stack r res w)
  then show ?case
    by (auto simp: new_lua_def table_inv_def split: sum.splits if_splits)
next
  case (called w meth f stack res w')
  then show ?case by (blast intro: call_cfunction_inv)
next
  case (collected w meth stack res w')
  then show ?case
    by (auto simp: gc_lua_def split: option.splits intro: dso_close_inv[OF _ surjective_pairing])
qed

lemma reachable_sym_inv: "reachable E w \<Longrightarrow> sy \<in> set (dso_symbols (w_dso w)) \<Longrightarrow> sym_inv sy"
  using reachable_table_inv by (auto simp: table_inv_def)

text \<open>An open library has its tail pointer on the chain, so a declaration appends.\<close>

lemma reachable_tail_linked:
  "reachable E w \<Longrightarrow> dso_handle (w_dso w) \<noteq> 0 \<Longrightarrow> dso_tail_linked (w_dso w)"
proof (induction rule: reachable.induct)
  case (opened meth stack r res w)
  then show ?case by (auto simp: new_lua_def split: sum.splits if_splits)
next
  case (called w meth f stack res w')
  show ?case
  proof (cases f)
    case Cdlsym_lua
    with called show ?thesis
      by (auto simp: call_cfunction_def dlsym_lua_def dlsym_bind_def Let_def emit_def append_symbol_def
               split: option.splits if_splits sum.splits prod.splits)
  next
    case Cdlclose_lua
    with called show ?thesis
      by (auto simp: call_cfunction_def dlclose_lua_def dso_close_def Let_def emit_def
               split: option.splits if_splits prod.splits)
  next
    case (Csymcall_lua sy)
    with called symcall_lua_dso[of E meth sy stack w res w'] show ?thesis
      by (simp add: call_cfunction_def)
  qed
next
  case (collected w meth stack res w')
  then show ?case
    by (auto simp: gc_lua_def dso_close_def Let_def emit_def split: option.splits if_splits)
qed

lemma dlsym_lua_appends:
  assumes "reachable E w" and "dso_handle (w_dso w) \<noteq> 0"
    and "dlsym_lua E meth stack w = (Inr [LBoolean True], w')"
  shows "\<exists>sy. dso_symbols (w_dso w') = dso_symbols (w_dso w) @ [sy]"
proof -
  from assms(3) obtain sy where "w_dso w' = append_symbol sy (w_dso w)"
    by (auto simp: dlsym_lua_def dlsym_bind_def Let_def emit_def
             split: option.splits if_splits sum.splits prod.splits)
  with reachable_tail_linked[OF assms(1,2)] show ?thesis
    by (auto simp: append_symbol_def)
qed

lemma dlsym_add_example:
  "dlsym_lua example_env True
     [example_lib, LString ''int'', LString ''add'', LString ''int'', LString ''int''] example_world
   = (Inr [LBoolean True], example_declared)"
  by (simp add: model_defs example_defs)

lemma reachable_example_declared: "reachable example_env example_declared"
proof -
  have "call_cfunction example_env True Cdlsym_lua
     [example_lib, LString ''int'', LString ''add'', LString ''int'', LString ''int''] example_world
    = (Inr [LBoolean True], example_declared)"
    using dlsym_add_example by (simp add: call_cfunction_def)
  with reachable_example_world show ?thesis by (rule reachable.called)
qed

lemma dlsym_getenv_example:
  "dlsym_lua example_env True [example_lib, LString ''char*'', LString ''getenv'', LString ''char*'']
     example_world = (Inr [LBoolean True], example_getenv)"
  by (simp add: model_defs example_defs)

lemma reachable_example_getenv: "reachable example_env example_getenv"
proof -
  have "call_cfunction example_env True Cdlsym_lua
     [example_lib, LString ''char*'', LString ''getenv'', LString ''char*''] example_world
    = (Inr [LBoolean True], example_getenv)"
    using dlsym_getenv_example by (simp add: call_cfunction_def)
  with reachable_example_world show ?thesis by (rule reachable.called)
qed

subsection \<open>Lookup\<close>







subsection \<open>Declaring\<close>

text \<open>
  C6. A declaration with more than 32 argument tags fails with the message of
  \<open>dlsym_lua\<close> for too many arguments, whatever the tags are, and leaves the world as
  it was: the symbol table has the entries it had. This holds for \<open>dlsym_lua\<close> called
  in any way and for \<open>lib:dlsym(...)\<close> on an open library.
\<close>

theorem declare_too_many_arguments:
  assumes "32 < length tags" and "dso_handle (w_dso w) \<noteq> 0"
  shows "dlsym_lua E meth (LUserdata (dso_self (w_dso w)) # rt # nm # tags) w =
           (Inr [LBoolean False, LString ''number of arguments at least 2 and at most 34''], w) \<and>
         method_call E (LString ''dlsym'') (rt # nm # tags) w =
           (Inr [LBoolean False, LString ''number of arguments at least 2 and at most 34''], w)"
  using assms by (simp add: method_call_dlsym dlsym_lua_def luaL_checkudata_self FFI_MAX_ARGS_def)

theorem declare_too_many_arguments_witness:
  "32 < length (replicate 33 (LString ''int'')) \<and> dso_handle (w_dso example_world) \<noteq> 0 \<and>
   dlsym_lua example_env True (example_lib # LString ''int'' # LString ''add'' # replicate 33 (LString ''int''))
      example_world
    = (Inr [LBoolean False, LString ''number of arguments at least 2 and at most 34''], example_world) \<and>
   method_call example_env (LString ''dlsym'') (LString ''int'' # LString ''add'' # replicate 33 (LString ''int''))
      example_world
    = (Inr [LBoolean False, LString ''number of arguments at least 2 and at most 34''], example_world)"
  using declare_too_many_arguments[of "replicate 33 (LString ''int'')" example_world example_env True
      "LString ''int''" "LString ''add''"]
  by (simp add: example_defs)

lemma type_names_no_NUL: "t \<in> set type_names \<Longrightarrow> NUL \<notin> set t"
  by (auto simp: type_names_def NUL_def)

lemma find_option_mem:
  assumes "\<forall>x \<in> set xs. NUL \<notin> set x" and "NUL \<notin> set nm" and "nm \<in> set xs"
  shows "\<exists>k < length xs. find_option nm xs i = Some (i + k) \<and> xs ! k = nm"
  using assms
proof (induction xs arbitrary: i)
  case Nil
  then show ?case by simp
next
  case (Cons x xs)
  show ?case
  proof (cases "x = nm")
    case True
    with Cons.prems show ?thesis by (auto simp: strcmp_eq_plain)
  next
    case False
    with Cons.prems have "nm \<in> set xs" by simp
    with Cons.IH[of "Suc i"] Cons.prems obtain k where
      "k < length xs" "find_option nm xs (Suc i) = Some (Suc i + k)" "xs ! k = nm" by auto
    with False Cons.prems show ?thesis
      by (intro exI[of _ "Suc k"]) (auto simp: strcmp_eq_plain)
  qed
qed

lemma distinct_type_names: "distinct type_names"
  by (simp add: type_names_def)

lemma length_type_names: "length type_names = 26"
  by (simp add: type_names_def)

lemma datatype_of_nat_nth: "k < 26 \<Longrightarrow> datatype_of_nat k = datatype_list ! k"
  by (simp add: datatype_of_nat_def)

lemma length_datatype_list: "length datatype_list = 26"
  by (simp add: datatype_list_def)

lemma distinct_datatype_list: "distinct datatype_list"
  by (simp add: datatype_list_def)

lemma FFI_TYPE_CASE_datatype_list: "\<forall>t \<in> set datatype_list. FFI_TYPE_CASE t \<noteq> None"
  by (simp add: datatype_list_def)

lemma FFI_TYPE_CASE_datatype_of_nat: "k < 26 \<Longrightarrow> FFI_TYPE_CASE (datatype_of_nat k) \<noteq> None"
  using FFI_TYPE_CASE_datatype_list nth_mem[of k datatype_list]
  by (simp add: datatype_of_nat_nth length_datatype_list)

lemma datatype_of_nat_void: "k < 26 \<Longrightarrow> datatype_of_nat k = T_VOID \<longleftrightarrow> k = 0"
proof -
  assume k: "k < 26"
  have "datatype_list ! 0 = T_VOID" by (simp add: datatype_list_def)
  then have "datatype_list ! k = T_VOID \<longleftrightarrow> datatype_list ! k = datatype_list ! 0" by simp
  also have "\<dots> \<longleftrightarrow> k = 0"
    using k distinct_datatype_list by (simp add: nth_eq_iff_index_eq length_datatype_list)
  finally show ?thesis using k by (simp add: datatype_of_nat_nth)
qed

lemma check_ffitype_valid:
  assumes "stack_value stack idx = Some (LString t)" and "t \<in> set type_names"
  shows "\<exists>tg ft. check_ffitype E meth stack idx = Inr (tg, ft) \<and> (tg = T_VOID \<longleftrightarrow> t = ''void'')"
proof -
  from find_option_mem[of type_names t 0] assms(2) type_names_no_NUL obtain k where
    k: "k < 26" "find_option t type_names 0 = Some k" "type_names ! k = t"
    by (auto simp: length_type_names)
  have "k = 0 \<longleftrightarrow> t = ''void''"
  proof
    assume "k = 0" with k(3) show "t = ''void''" by (simp add: type_names_def)
  next
    assume "t = ''void''"
    then have "type_names ! k = type_names ! 0" using k(3) by (simp add: type_names_def)
    with distinct_type_names k(1) show "k = 0"
      by (simp add: nth_eq_iff_index_eq length_type_names)
  qed
  with k FFI_TYPE_CASE_datatype_of_nat[OF k(1)] datatype_of_nat_void[OF k(1)] assms(1) show ?thesis
    by (auto simp: check_ffitype_def luaL_checkoption_def luaL_checklstring_def)
qed

lemma check_arg_types_void:
  assumes "\<forall>j. i \<le> j \<and> j < i + k \<longrightarrow> (\<exists>t \<in> set type_names. stack_value stack (4 + j) = Some (LString t))"
    and "\<exists>j. i \<le> j \<and> j < i + k \<and> stack_value stack (4 + j) = Some (LString ''void'')"
  shows "check_arg_types E meth stack i k = Inr None"
  using assms
proof (induction k arbitrary: i)
  case 0
  from "0.prems"(2) obtain j where "i \<le> j" "j < i + 0" by blast
  then show ?case by simp
next
  case (Suc k)
  have "i \<le> i \<and> i < i + Suc k" by simp
  with Suc.prems(1) obtain t where t: "t \<in> set type_names" "stack_value stack (4 + i) = Some (LString t)"
    by blast
  from check_ffitype_valid[OF t(2) t(1)] obtain tg ft where
    c: "check_ffitype E meth stack (4 + i) = Inr (tg, ft)" and v: "tg = T_VOID \<longleftrightarrow> t = ''void''"
    by blast
  show ?case
  proof (cases "t = ''void''")
    case True
    with c v show ?thesis by simp
  next
    case False
    from Suc.prems(2) obtain j where j0: "i \<le> j" "j < i + Suc k"
      "stack_value stack (4 + j) = Some (LString ''void'')" by blast
    with False t(2) have "j \<noteq> i" by auto
    with j0 have j: "Suc i \<le> j" "j < Suc i + k"
      "stack_value stack (4 + j) = Some (LString ''void'')" by simp_all
    have "check_arg_types E meth stack (Suc i) k = Inr None"
      using Suc.prems(1) j by (intro Suc.IH) auto
    with c v False show ?thesis by simp
  qed
qed

text \<open>
  C7, as the spec states it for every declaration, fails on the code: the count of the
  arguments is checked first. A declaration of 33 argument tags whose first is \<open>void\<close>
  fails with the message for too many arguments, not with the one for a void argument.
\<close>

theorem void_among_too_many_counterexample:
  "dlsym_lua example_env True
     (example_lib # LString ''int'' # LString ''add'' # LString ''void'' # replicate 32 (LString ''int''))
     example_world
   = (Inr [LBoolean False, LString ''number of arguments at least 2 and at most 34''], example_world)"
  by (simp add: model_defs example_defs)

text \<open>
  C7, amended. A declaration with at most 32 argument tags, a return tag and argument
  tags that are type names of the module and a symbol name that is a string, fails
  with \<open>void cannot be used as argument type\<close> as soon as \<open>void\<close> is among the argument
  tags. The world is the same afterwards, its trace of events included: the name has
  not been duplicated and \<open>dlsym\<close> has not been called. With more than 32 argument
  tags the declaration fails for their number (C6).
\<close>

theorem declare_void_argument:
  assumes "length names \<le> 32" and "set names \<subseteq> set type_names" and "''void'' \<in> set names"
    and "r \<in> set type_names"
  shows "dlsym_lua E meth (LUserdata (dso_self (w_dso w)) # LString r # LString nm # map LString names) w =
           (Inr [LBoolean False, LString ''void cannot be used as argument type''], w)"
proof -
  let ?stack = "LUserdata (dso_self (w_dso w)) # LString r # LString nm # map LString names"
  have sv: "stack_value ?stack (4 + j) = Some (LString (names ! j))" if "j < length names" for j
    using that by (simp add: stack_value_def)
  have "stack_value ?stack 2 = Some (LString r)" by (simp add: stack_value_def)
  from check_ffitype_valid[OF this assms(4)] obtain tg ft where
    rt: "check_ffitype E meth ?stack 2 = Inr (tg, ft)" by blast
  have nm: "luaL_checklstring E meth ?stack 3 = Inr nm"
    by (simp add: luaL_checklstring_def stack_value_def)
  from assms(3) obtain j where j: "j < length names" "names ! j = ''void''"
    by (auto simp: in_set_conv_nth)
  have "check_arg_types E meth ?stack 0 (length names) = Inr None"
  proof (rule check_arg_types_void)
    show "\<forall>j. 0 \<le> j \<and> j < 0 + length names \<longrightarrow>
              (\<exists>t\<in>set type_names. stack_value ?stack (4 + j) = Some (LString t))"
      using sv assms(2) by (auto simp del: stack_value_def)
    show "\<exists>j. 0 \<le> j \<and> j < 0 + length names \<and> stack_value ?stack (4 + j) = Some (LString ''void'')"
      using sv[OF j(1)] j by auto
  qed
  with rt nm assms(1) show ?thesis
    by (simp add: dlsym_lua_def luaL_checkudata_self FFI_MAX_ARGS_def)
qed

theorem declare_void_argument_witness:
  "length [''int'', ''void''] \<le> 32 \<and> set [''int'', ''void''] \<subseteq> set type_names \<and>
   ''void'' \<in> set [''int'', ''void''] \<and> ''int'' \<in> set type_names \<and>
   dlsym_lua example_env True
      [example_lib, LString ''int'', LString ''add'', LString ''int'', LString ''void''] example_world
    = (Inr [LBoolean False, LString ''void cannot be used as argument type''], example_world)"
  using declare_void_argument[of "[''int'', ''void'']" "''int''" example_env True example_world "''add''"]
  by (simp add: example_defs type_names_def)

subsection \<open>Invoking\<close>

text \<open>
  C8. For a declared symbol, a call whose stack holds, after the handle, a number of
  arguments other than \<open>nargs\<close> (which is the length of the declared tag list) raises
  \<open>invalid number of arguments\<close> with the two numbers. The world is the same
  afterwards, its trace of events included: the native function has not been called.
\<close>

theorem invoke_argument_count_mismatch:
  assumes "reachable E w0" and "sy \<in> set (dso_symbols (w_dso w0))"
    and "int (length stack) - 1 \<noteq> int (sym_nargs sy)" and "length stack \<le> LUAI_MAXSTACK"
  shows "length (sym_arg_types sy) = sym_nargs sy \<and>
         symcall_lua E meth sy stack w =
           (Inl (Invalid_number_of_arguments (sym_name sy) (int (sym_nargs sy)) (int (length stack) - 1)),
            w)"
proof -
  note inv = reachable_sym_inv[OF assms(1,2)]
  have n: "sym_nargs sy \<le> 32" and rt: "sym_ret_type sy \<noteq> T_LAST"
    and l: "length (sym_arg_types sy) = sym_nargs sy"
    using inv by (simp_all add: sym_inv_def FFI_MAX_ARGS_def)
  have "sym_nargs sy \<noteq> size_t_of_int (int (length stack) - 1)"
    using n assms(3,4) by (intro size_t_of_int_neq) (auto simp: LUAI_MAXSTACK_def)
  then show ?thesis
    using rt n l by (simp add: symcall_lua_def int_of_size_t_small)
qed

theorem invoke_argument_count_mismatch_witness:
  "reachable example_env example_declared \<and> add_symbol \<in> set (dso_symbols (w_dso example_declared)) \<and>
   int (length [example_lib, LInteger 2]) - 1 \<noteq> int (sym_nargs add_symbol) \<and>
   length [example_lib, LInteger 2] \<le> LUAI_MAXSTACK \<and>
   symcall_lua example_env True add_symbol [example_lib, LInteger 2] example_declared
     = (Inl (Invalid_number_of_arguments ''add'' 2 1), example_declared)"
  using invoke_argument_count_mismatch[OF reachable_example_declared, of add_symbol
      "[example_lib, LInteger 2]" True example_declared]
    reachable_example_declared
  by (simp add: example_defs LUAI_MAXSTACK_def)

lemma luaL_argerror_at:
  "luaL_argerror meth (Suc (Suc i)) msg = Bad_argument (if meth then Suc i else Suc (Suc i)) msg"
  by (simp add: luaL_argerror_def)

lemma luaL_checkinteger_cases:
  "(lua_tointegerx E stack (Suc (Suc i)) \<noteq> None \<and>
      (\<exists>v. luaL_checkinteger E meth stack (Suc (Suc i)) = Inr v)) \<or>
   (lua_tointegerx E stack (Suc (Suc i)) = None \<and>
      (\<exists>e. luaL_checkinteger E meth stack (Suc (Suc i)) = Inl e \<and>
           arg_error_at (if meth then Suc i else Suc (Suc i)) e))"
proof (cases "lua_tointegerx E stack (Suc (Suc i))")
  case None
  then show ?thesis
    by (simp add: luaL_checkinteger_def luaL_typeerror_def luaL_argerror_at)
next
  case (Some v)
  then show ?thesis by (simp add: luaL_checkinteger_def)
qed

lemma luaL_checknumber_cases:
  "(lua_tonumberx E stack (Suc (Suc i)) \<noteq> None \<and>
      (\<exists>v. luaL_checknumber E meth stack (Suc (Suc i)) = Inr v)) \<or>
   (lua_tonumberx E stack (Suc (Suc i)) = None \<and>
      (\<exists>e. luaL_checknumber E meth stack (Suc (Suc i)) = Inl e \<and>
           arg_error_at (if meth then Suc i else Suc (Suc i)) e))"
proof (cases "lua_tonumberx E stack (Suc (Suc i))")
  case None
  then show ?thesis
    by (simp add: luaL_checknumber_def luaL_typeerror_def luaL_argerror_at)
next
  case (Some v)
  then show ?thesis by (simp add: luaL_checknumber_def)
qed

lemma CHECK_CASE_cases:
  "(lua_tointegerx E stack (Suc (Suc i)) \<noteq> None \<and>
      (\<exists>v. CHECK_CASE E meth stack (Suc (Suc i)) fld = Inr v)) \<or>
   (lua_tointegerx E stack (Suc (Suc i)) = None \<and>
      (\<exists>e. CHECK_CASE E meth stack (Suc (Suc i)) fld = Inl e \<and>
           arg_error_at (if meth then Suc i else Suc (Suc i)) e))"
  using luaL_checkinteger_cases[of E stack i meth] by (auto simp: CHECK_CASE_def)

text \<open>The switch accepts exactly the coercible values, and its errors name the argument.\<close>

lemma check_arg_type_cases:
  assumes "tag \<noteq> T_VOID" and "tag \<noteq> T_LAST"
  shows "(coercible E tag stack (2 + i) \<and> (\<exists>v. check_arg_type E meth nm tag stack i = Inr v)) \<or>
         (\<not> coercible E tag stack (2 + i) \<and>
            (\<exists>e. check_arg_type E meth nm tag stack i = Inl e \<and> arg_error_at (arg_position meth tag i) e))"
proof (cases tag)
  case T_VOID_PTR
  then show ?thesis
    by (cases "lua_type stack (Suc (Suc i))")
       (simp_all add: check_arg_type_def coercible_def arg_position_def)
next
  case T_CHAR_PTR
  then show ?thesis
    by (cases "lua_type stack (Suc (Suc i))")
       (simp_all add: check_arg_type_def coercible_def arg_position_def)
next
  case T_FLOAT
  with luaL_checknumber_cases[of E stack i meth] show ?thesis
    by (auto simp: check_arg_type_def coercible_def arg_position_def)
next
  case T_DOUBLE
  with luaL_checknumber_cases[of E stack i meth] show ?thesis
    by (auto simp: check_arg_type_def coercible_def arg_position_def)
qed (use assms CHECK_CASE_cases[of E stack i meth] in
      \<open>simp_all add: check_arg_type_def coercible_def arg_position_def\<close>)

lemma check_arg_cases:
  assumes "sym_inv sy" and "i < sym_nargs sy"
  shows "(coercible E (sym_arg_types sy ! i) stack (2 + i) \<and> (\<exists>v. check_arg E meth sy stack i = Inr v)) \<or>
         (\<not> coercible E (sym_arg_types sy ! i) stack (2 + i) \<and>
            (\<exists>e. check_arg E meth sy stack i = Inl e \<and>
                 arg_error_at (arg_position meth (sym_arg_types sy ! i) i) e))"
proof -
  from assms(1,2) have b: "i < FFI_MAX_ARGS" "i < length (sym_arg_types sy)"
    by (auto simp: sym_inv_def)
  from assms(1) nth_mem[OF b(2)]
  have t: "sym_arg_types sy ! i \<noteq> T_VOID" "sym_arg_types sy ! i \<noteq> T_LAST"
    by (auto simp: sym_inv_def)
  from b have "check_arg E meth sy stack i =
      check_arg_type E meth (sym_name sy) (sym_arg_types sy ! i) stack i"
    by (simp add: check_arg_def)
  with check_arg_type_cases[OF t, of E stack i meth "sym_name sy"] show ?thesis by simp
qed


lemma check_arguments_all_coercible:
  assumes "sym_inv sy"
  shows "i0 + k \<le> sym_nargs sy \<Longrightarrow>
     \<forall>j. i0 \<le> j \<and> j < i0 + k \<longrightarrow> coercible E (sym_arg_types sy ! j) stack (2 + j) \<Longrightarrow>
     \<exists>vs. check_arguments E meth sy stack i0 k = Inr vs"
proof (induction k arbitrary: i0)
  case 0
  then show ?case by simp
next
  case (Suc k)
  from Suc.prems have "coercible E (sym_arg_types sy ! i0) stack (2 + i0)" by simp
  with check_arg_cases[OF assms, of i0 E stack meth] Suc.prems obtain v where
    v: "check_arg E meth sy stack i0 = Inr v" by auto
  have "\<exists>vs. check_arguments E meth sy stack (Suc i0) k = Inr vs"
    using Suc.prems by (intro Suc.IH) auto
  with v show ?case by auto
qed




text \<open>
  C9. For a declared symbol with the return tag \<open>char*\<close>, called with arguments that
  its tags take, the native function is called once and the call yields one value:
  nil when the pointer returned is null, and otherwise the string made of the bytes at
  the pointer up to the first zero byte. Nil is not the empty string.
\<close>

theorem invoke_cstring_return:
  assumes "reachable E w0" and "sy \<in> set (dso_symbols (w_dso w0))"
    and "sym_ret_type sy = T_CHAR_PTR"
    and "length stack = Suc (sym_nargs sy)"
    and "\<forall>j < sym_nargs sy. coercible E (sym_arg_types sy ! j) stack (2 + j)"
  shows "\<exists>arg_values p.
           p = ffi_call E (sym_addr sy) (sym_ret_ffi_type sy) (sym_arg_ffi_types sy) arg_values \<and>
           symcall_lua E meth sy stack w =
             (Inr [if p = 0 then LNil else LString (cstr (mem_string E p))],
              emit [Ev_ffi_call (sym_addr sy) arg_values] w) \<and>
           LNil \<noteq> LString []"
proof -
  note inv = reachable_sym_inv[OF assms(1,2)]
  have n: "sym_nargs sy \<le> 32"
    using inv by (simp_all add: sym_inv_def FFI_MAX_ARGS_def)
  have k: "int (length stack) - 1 = int (sym_nargs sy)"
    using assms(4) by simp
  have sz: "size_t_of_int (int (sym_nargs sy)) = sym_nargs sy"
    using n by (simp add: size_t_of_int_def)
  from check_arguments_all_coercible[OF inv, of 0 "sym_nargs sy" E stack meth] assms(5)
  obtain vs where vs: "check_arguments E meth sy stack 0 (sym_nargs sy) = Inr vs" by auto
  have "symcall_lua E meth sy stack w =
      (Inr [if ffi_call E (sym_addr sy) (sym_ret_ffi_type sy) (sym_arg_ffi_types sy) vs = 0 then LNil
            else LString (cstr (mem_string E
                   (ffi_call E (sym_addr sy) (sym_ret_ffi_type sy) (sym_arg_ffi_types sy) vs)))],
       emit [Ev_ffi_call (sym_addr sy) vs] w)"
    unfolding symcall_lua_def Let_def k using sz vs assms(3)
    by (simp add: push_return_def push_return_type_def)
  then show ?thesis by blast
qed

theorem invoke_cstring_return_witness:
  "reachable example_env example_getenv \<and> getenv_symbol \<in> set (dso_symbols (w_dso example_getenv)) \<and>
   sym_ret_type getenv_symbol = T_CHAR_PTR \<and>
   coercible example_env T_CHAR_PTR [example_lib, LString ''HOME''] 2 \<and>
   symcall_lua example_env True getenv_symbol [example_lib, LString ''HOME''] example_getenv =
     (Inr [LNil], emit [Ev_ffi_call 0x2000 [0x7000]] example_getenv)"
  using invoke_cstring_return[OF reachable_example_getenv, of getenv_symbol
      "[example_lib, LString ''HOME'']" True example_getenv]
    reachable_example_getenv
  by (simp add: model_defs call_defs example_defs coercible_def)

subsection \<open>The guards of symcall_lua\<close>

lemma luaL_argerror_not_guard: "\<not> guard_error (luaL_argerror meth arg msg)"
  by (simp add: luaL_argerror_def)

lemma luaL_checkinteger_not_guard: "luaL_checkinteger E meth stack idx = Inl e \<Longrightarrow> \<not> guard_error e"
  by (auto simp: luaL_checkinteger_def luaL_typeerror_def luaL_argerror_not_guard
           split: option.splits if_splits)

lemma luaL_checknumber_not_guard: "luaL_checknumber E meth stack idx = Inl e \<Longrightarrow> \<not> guard_error e"
  by (auto simp: luaL_checknumber_def luaL_typeerror_def luaL_argerror_not_guard split: option.splits)

lemma CHECK_CASE_not_guard: "CHECK_CASE E meth stack idx fld = Inl e \<Longrightarrow> \<not> guard_error e"
  by (auto simp: CHECK_CASE_def dest: luaL_checkinteger_not_guard split: sum.splits)

lemma check_arg_type_not_guard:
  assumes "check_arg_type E meth nm tag stack i = Inl e" and "tag \<noteq> T_VOID" and "tag \<noteq> T_LAST"
  shows "\<not> guard_error e"
proof (cases tag)
  case T_VOID_PTR
  with assms(1) show ?thesis
    by (auto simp: check_arg_type_def split: lua_type.splits)
next
  case T_CHAR_PTR
  with assms(1) show ?thesis
    by (auto simp: check_arg_type_def split: lua_type.splits)
next
  case T_FLOAT
  with assms(1) show ?thesis
    by (auto simp: check_arg_type_def dest: luaL_checknumber_not_guard split: sum.splits)
next
  case T_DOUBLE
  with assms(1) show ?thesis
    by (auto simp: check_arg_type_def dest: luaL_checknumber_not_guard)
qed (use assms in \<open>auto simp: check_arg_type_def dest: CHECK_CASE_not_guard\<close>)

lemma check_arg_not_guard:
  assumes "sym_inv sy" and "i < sym_nargs sy" and "check_arg E meth sy stack i = Inl e"
  shows "\<not> guard_error e"
proof -
  from assms(1,2) have b: "i < FFI_MAX_ARGS" "i < length (sym_arg_types sy)"
    by (auto simp: sym_inv_def)
  from assms(1) nth_mem[OF b(2)]
  have t: "sym_arg_types sy ! i \<noteq> T_VOID" "sym_arg_types sy ! i \<noteq> T_LAST"
    by (auto simp: sym_inv_def)
  from b assms(3) have "check_arg_type E meth (sym_name sy) (sym_arg_types sy ! i) stack i = Inl e"
    by (simp add: check_arg_def)
  then show ?thesis using t by (rule check_arg_type_not_guard)
qed

lemma check_arguments_not_guard:
  assumes "sym_inv sy"
  shows "i + k \<le> sym_nargs sy \<Longrightarrow> check_arguments E meth sy stack i k = Inl e \<Longrightarrow> \<not> guard_error e"
proof (induction k arbitrary: i)
  case 0
  then show ?case by simp
next
  case (Suc k)
  show ?case
  proof (cases "check_arg E meth sy stack i")
    case (Inl e')
    with Suc.prems have "e' = e" by simp
    with Inl check_arg_not_guard[OF assms, of i E meth stack e] Suc.prems(1) show ?thesis by simp
  next
    case (Inr v)
    with Suc.prems(2) have "check_arguments E meth sy stack (Suc i) k = Inl e"
      by (auto split: sum.splits)
    with Suc.IH[of "Suc i"] Suc.prems(1) show ?thesis by simp
  qed
qed

lemma push_return_type_not_guard: "push_return_type E nm tag retval = Inl e \<Longrightarrow> \<not> guard_error e"
  by (cases tag) (auto simp: push_return_type_def)

lemma symcall_lua_not_guard:
  assumes "sym_inv sy" and "length stack \<le> LUAI_MAXSTACK"
    and "fst (symcall_lua E meth sy stack w) = Inl e"
  shows "\<not> guard_error e"
proof (cases "sym_nargs sy = size_t_of_int (int (length stack) - 1)")
  case False
  with assms(1,3) show ?thesis
    by (auto simp: symcall_lua_def sym_inv_def)
next
  case True
  have n: "sym_nargs sy \<le> 32" and rt: "sym_ret_type sy \<noteq> T_LAST"
    using assms(1) by (simp_all add: sym_inv_def FFI_MAX_ARGS_def)
  from True n assms(2) have k: "int (length stack) - 1 = int (sym_nargs sy)"
    by (intro size_t_of_int_eq) (auto simp: LUAI_MAXSTACK_def)
  then have k': "nat (int (length stack) - 1) = sym_nargs sy" by simp
  show ?thesis
  proof (cases "check_arguments E meth sy stack 0 (sym_nargs sy)")
    case (Inl e')
    with assms(3) True rt k' have "e' = e \<or> e = Unsupported_return_type (sym_name sy)"
      by (auto simp: symcall_lua_def Let_def split: if_splits)
    with Inl check_arguments_not_guard[OF assms(1), of 0 "sym_nargs sy" E meth stack e]
    show ?thesis by auto
  next
    case (Inr vs)
    with assms(3) True rt k' have
      "\<exists>rv. push_return_type E (sym_name sy) (sym_ret_type sy) rv = Inl e \<or>
            e = Unsupported_return_type (sym_name sy)"
      by (auto simp: symcall_lua_def Let_def push_return_def split: if_splits)
    then show ?thesis by (auto dest: push_return_type_not_guard)
  qed
qed

text \<open>
  C10. In every world that the functions of the module can bring about, from
  \<open>new_lua\<close> on and through any sequence of declarations, calls, closes and
  finalizer runs, every record of the symbol table has at most 32 arguments and no
  \<open>void\<close> among its first \<open>nargs\<close> argument tags. For such a record no call of
  \<open>symcall_lua\<close>, whatever the stack, leaves the 32-slot arrays or the table of return
  slots, and none takes the void guard or the default branch of the argument switch.
\<close>

theorem stored_symbol_invariant:
  assumes "reachable E w" and "sy \<in> set (dso_symbols (w_dso w))"
  shows "sym_nargs sy \<le> 32 \<and> T_VOID \<notin> set (take (sym_nargs sy) (sym_arg_types sy)) \<and>
         (\<forall>meth stack w' e. length stack \<le> LUAI_MAXSTACK \<longrightarrow>
             fst (symcall_lua E meth sy stack w') = Inl e \<longrightarrow> \<not> guard_error e)"
proof -
  note inv = reachable_sym_inv[OF assms]
  then have "sym_nargs sy \<le> 32" "T_VOID \<notin> set (take (sym_nargs sy) (sym_arg_types sy))"
    by (auto simp: sym_inv_def FFI_MAX_ARGS_def dest: in_set_takeD)
  with symcall_lua_not_guard[OF inv] show ?thesis by blast
qed

theorem stored_symbol_invariant_witness:
  "reachable example_env example_declared \<and> add_symbol \<in> set (dso_symbols (w_dso example_declared)) \<and>
   sym_nargs add_symbol \<le> 32 \<and> T_VOID \<notin> set (take (sym_nargs add_symbol) (sym_arg_types add_symbol)) \<and>
   length [example_lib, LInteger 2, LString ''x''] \<le> LUAI_MAXSTACK \<and>
   fst (symcall_lua example_env True add_symbol [example_lib, LInteger 2, LString ''x''] example_declared)
     = Inl (Bad_argument 2 (Type_expected ''number'' LUA_TSTRING)) \<and>
   \<not> guard_error (Bad_argument 2 (Type_expected ''number'' LUA_TSTRING))"
  using stored_symbol_invariant[OF reachable_example_declared, of add_symbol] reachable_example_declared
  by (simp add: model_defs call_defs example_defs LUAI_MAXSTACK_def)

subsection \<open>Marshalling in and out\<close>




text \<open>The bit length, and the fields of a floating-point datum.\<close>

lemma bit_length_0 [simp]: "bit_length 0 = 0"
  by (simp add: bit_length.simps)












lemma fp_bias_8 [simp]: "fp_bias 8 = 127"
  by (simp add: fp_bias_def)

lemma fp_bias_11 [simp]: "fp_bias 11 = 1023"
  by (simp add: fp_bias_def)
































end
